theory Spec2Isabelle
  imports Main "HOL-Library.AList"
begin

section \<open>Python values, dictionaries and exceptions\<close>

text \<open>
  The three modules under \<^verbatim>\<open>src/library\<close> (\<^verbatim>\<open>ec2_customer_gateway.py\<close>,
  \<^verbatim>\<open>ec2_vpn_gateway.py\<close>, \<^verbatim>\<open>ec2_vpn_connection.py\<close>) are Python 2 classes over the boto
  SDK. A string parameter that may be \<^verbatim>\<open>None\<close> is a \<open>string option\<close>; its truth value in
  \<^verbatim>\<open>if self.id:\<close> is \<open>truthy\<close> (neither \<^verbatim>\<open>None\<close> nor the empty string).
\<close>

type_synonym sid = "string option"

definition truthy :: "sid \<Rightarrow> bool" where
  "truthy s = (case s of None \<Rightarrow> False | Some x \<Rightarrow> x \<noteq> [])"

datatype pyval = PNone | PStr string | PInt int | PBool bool

definition of_sid :: "sid \<Rightarrow> pyval" where
  "of_sid s = (case s of None \<Rightarrow> PNone | Some x \<Rightarrow> PStr x)"

text \<open>
  A tag dictionary (str to str) is an association list with one pair per key;
  \<^verbatim>\<open>d[k] = v\<close> is \<open>AList.update k v d\<close>, \<^verbatim>\<open>d.items()\<close> is the list itself and \<^verbatim>\<open>if d:\<close> is
  \<open>d \<noteq> []\<close>. \<open>dict_of\<close> is \<^verbatim>\<open>dict((t.name, t.value) for t in ...)\<close>, equally the loop
  \<^verbatim>\<open>for tag in gettags: tagdict[tag.name] = tag.value\<close>: a later pair overrides.
\<close>

type_synonym dict = "(string \<times> string) list"

definition is_dict :: "dict \<Rightarrow> bool" where
  "is_dict d = distinct (map fst d)"

definition dict_of :: "(string \<times> string) list \<Rightarrow> dict" where
  "dict_of ps = fold (\<lambda>(name, val) d. AList.update name val d) ps []"

type_synonym info = "(string \<times> pyval) list"

datatype exn =
    FailJson string
  | NoAuthHandlerFound string
  | BotoServerError string
  | UnboundLocalError string
  | TypeError string

text \<open>
  \<open>FailJson msg\<close> is \<^verbatim>\<open>module.fail_json(msg=msg)\<close>, which ends the invocation; the other
  constructors are Python exceptions that nothing catches (a traceback ends the invocation).
\<close>

section \<open>The SDK connection\<close>

text \<open>
  boto is not part of the repository, so what the remote answers is a parameter: a record
  with one field per SDK call the modules make, giving the call's outcome (\<open>Inl\<close> an
  exception raised by the call, \<open>Inr\<close> its return value) as a function of its arguments.
  One such record describes the remote during one invocation: any outcome may be chosen
  for any call, and a call repeated with the same arguments has the same outcome. The
  calls that are issued are logged, oldest first, in the manager's field \<open>calls\<close>.
\<close>

record ec2_object =
  obj_id :: string
  obj_type :: pyval

record customer_gateway = ec2_object +
  o_ip_address :: pyval
  o_bgp_asn :: pyval

record vpn_gateway = ec2_object +
  o_availability_zone :: pyval

record vpn_connection = ec2_object +
  o_state :: pyval
  o_customer_gateway_configuration :: pyval
  o_customer_gateway_id :: pyval
  o_vpn_gateway_id :: pyval
  o_tunnels :: string
  o_options :: pyval
  o_static_routes :: pyval

datatype query = NoArgs | Ids "sid list" | Filters "(string \<times> sid) list"

datatype call =
    GetAllTags query
  | CreateTags sid dict
  | DeleteTags sid dict
  | GetAllCustomerGateways query
  | CreateCustomerGateway sid sid "int option"
  | DeleteCustomerGateway sid
  | GetAllVpnGateways query
  | CreateVpnGateway sid sid
  | DeleteVpnGateway sid
  | AttachVpnGateway sid sid
  | DetachVpnGateway sid sid
  | EnableVgwRoutePropagation string sid
  | DisableVgwRoutePropagation string sid
  | GetAllVpnConnections query
  | CreateVpnConnection sid sid sid bool
  | DeleteVpnConnection sid

text \<open>
  \<open>DeleteTags\<close> stands for boto's \<^verbatim>\<open>delete_tags\<close>; it is listed so that its absence from
  a log can be stated. The \<^verbatim>\<open>get_all_*\<close> calls only read.
\<close>

fun mutating :: "call \<Rightarrow> bool" where
  "mutating (GetAllTags q) = False"
| "mutating (GetAllCustomerGateways q) = False"
| "mutating (GetAllVpnGateways q) = False"
| "mutating (GetAllVpnConnections q) = False"
| "mutating c = True"

fun is_create :: "call \<Rightarrow> bool" where
  "is_create (CreateCustomerGateway t ip asn) = True"
| "is_create (CreateVpnGateway t az) = True"
| "is_create (CreateVpnConnection t c v s) = True"
| "is_create c = False"

record aws =
  connect_to_aws :: "exn + unit"
  get_all_tags :: "query \<Rightarrow> exn + (string \<times> string) list"
  create_tags :: "sid \<Rightarrow> dict \<Rightarrow> exn + bool"
  get_all_customer_gateways :: "query \<Rightarrow> exn + customer_gateway list"
  create_customer_gateway :: "sid \<Rightarrow> sid \<Rightarrow> int option \<Rightarrow> exn + customer_gateway option"
  delete_customer_gateway :: "sid \<Rightarrow> exn + bool"
  get_all_vpn_gateways :: "query \<Rightarrow> exn + vpn_gateway list"
  create_vpn_gateway :: "sid \<Rightarrow> sid \<Rightarrow> exn + vpn_gateway option"
  delete_vpn_gateway :: "sid \<Rightarrow> exn + bool"
  attach_vpn_gateway :: "sid \<Rightarrow> sid \<Rightarrow> exn + bool"
  detach_vpn_gateway :: "sid \<Rightarrow> sid \<Rightarrow> exn + bool"
  enable_vgw_route_propagation :: "string \<Rightarrow> sid \<Rightarrow> exn + bool"
  disable_vgw_route_propagation :: "string \<Rightarrow> sid \<Rightarrow> exn + bool"
  get_all_vpn_connections :: "query \<Rightarrow> exn + vpn_connection list"
  create_vpn_connection :: "sid \<Rightarrow> sid \<Rightarrow> sid \<Rightarrow> bool \<Rightarrow> exn + vpn_connection option"
  delete_vpn_connection :: "sid \<Rightarrow> exn + bool"

text \<open>
  A \<^verbatim>\<open>create_*\<close> call answers \<open>Some\<close> object or \<open>None\<close> (a falsy return, which the source
  tests with \<^verbatim>\<open>if self.cgw:\<close>); the status calls answer a truth value
  (\<^verbatim>\<open>if result:\<close>).
\<close>

section \<open>Managers\<close>

text \<open>
  The fields every manager class has; \<open>self_id\<close> and \<open>self_type\<close> are \<^verbatim>\<open>self.id\<close> and
  \<^verbatim>\<open>self.type\<close>. \<^verbatim>\<open>self.module\<close>, \<^verbatim>\<open>self.region\<close> and \<^verbatim>\<open>self.aws_connect_params\<close> are used
  only to open the connection and are left out. \<open>status\<close> is the string the source stores.
\<close>

record manager =
  self_id :: sid
  self_type :: sid
  tags :: dict
  changed :: bool
  status :: string
  calls :: "call list"

record cgw_manager = manager +
  ip_address :: sid
  bgp_asn :: "int option"
  cgw :: "customer_gateway option"

record vpn_gw_manager = manager +
  availability_zone :: sid
  vpc :: sid
  route_table_ids :: "string list option"
  attach_status :: string
  vpn_gw :: "vpn_gateway option"

text \<open>
  In \<^verbatim>\<open>VPNConnectionManager\<close> the fields \<^verbatim>\<open>self.cgw\<close>, \<^verbatim>\<open>self.vpn_gw\<close> and \<^verbatim>\<open>self.vpc\<close> hold
  id strings; they are named after the keyword arguments they are passed as.
\<close>

record vpn_conn_manager = manager +
  customer_gateway_id :: sid
  vpn_gateway_id :: sid
  conn_vpc :: sid
  static_routes_only :: bool
  static_routes :: "string list option"
  vpn_conn :: "vpn_connection option"

datatype state = present | absent

record result =
  r_changed :: bool
  r_info :: info

subsection \<open>Sequencing with exceptions\<close>

text \<open>
  A method is a function from the manager to an outcome and the manager as the method
  left it; after an exception the manager (and its call log) is the one at the raise.
\<close>

definition ret :: "'a \<Rightarrow> 's \<Rightarrow> (exn + 'a) \<times> 's" where
  "ret x s = (Inr x, s)"

definition throw :: "exn \<Rightarrow> 's \<Rightarrow> (exn + 'a) \<times> 's" where
  "throw e s = (Inl e, s)"

definition and_then ::
  "('s \<Rightarrow> (exn + 'a) \<times> 's) \<Rightarrow> ('a \<Rightarrow> 's \<Rightarrow> (exn + 'b) \<times> 's) \<Rightarrow> 's \<Rightarrow> (exn + 'b) \<times> 's" where
  "and_then f g s = (case f s of (Inl e, s') \<Rightarrow> (Inl e, s') | (Inr x, s') \<Rightarrow> g x s')"

definition remote ::
  "call \<Rightarrow> exn + 'a \<Rightarrow> 'm manager_scheme \<Rightarrow> (exn + 'a) \<times> 'm manager_scheme" where
  "remote c answer m = (answer, m\<lparr>calls := calls m @ [c]\<rparr>)"

text \<open>The calls a method issues when run from \<open>m\<close>: what it appends to the log.\<close>

definition issued ::
  "('m manager_scheme \<Rightarrow> 'r \<times> 'm manager_scheme) \<Rightarrow> 'm manager_scheme \<Rightarrow> call list" where
  "issued f m = drop (length (calls m)) (calls (snd (f m)))"

subsection \<open>Code shared by the three classes\<close>

text \<open>
  \<^verbatim>\<open>_get_aws_connection\<close> (the same in the three classes): \<^verbatim>\<open>NoAuthHandlerFound\<close> becomes
  \<^verbatim>\<open>fail_json\<close>, any other exception propagates.
\<close>

definition get_aws_connection :: "aws \<Rightarrow> 'm manager_scheme \<Rightarrow> (exn + unit) \<times> 'm manager_scheme" where
  "get_aws_connection a m =
     (case connect_to_aws a of
        Inl (NoAuthHandlerFound msg) \<Rightarrow> throw (FailJson msg) m
      | Inl e \<Rightarrow> throw e m
      | Inr u \<Rightarrow> ret () m)"

text \<open>
  The search by id of \<^verbatim>\<open>_get_customer_gateway\<close>, \<^verbatim>\<open>_get_vpn_gateway\<close> and
  \<^verbatim>\<open>_get_vpn_connection\<close>: \<^verbatim>\<open>for x in xs: if self.id == x.id: ... return x\<close>.
\<close>

fun search_by_id :: "sid \<Rightarrow> 'o ec2_object_scheme list \<Rightarrow> 'o ec2_object_scheme option" where
  "search_by_id i [] = None"
| "search_by_id i (x # xs) = (if i = Some (obj_id x) then Some x else search_by_id i xs)"

text \<open>
  The search by tags of the same three methods: for each candidate fetch its tags
  and append it to \<^verbatim>\<open>found\<close> when the wanted items are a subset of its items.
\<close>

definition resource_filter :: "sid \<Rightarrow> query" where
  "resource_filter i = Filters [(''resource-id'', i)]"

definition tags_match :: "dict \<Rightarrow> dict \<Rightarrow> bool" where
  "tags_match wanted have = (wanted \<noteq> [] \<and> set wanted \<subseteq> set have)"

fun search_by_tags ::
  "aws \<Rightarrow> dict \<Rightarrow> 'o ec2_object_scheme list \<Rightarrow> 'o ec2_object_scheme list \<Rightarrow>
   'm manager_scheme \<Rightarrow> (exn + 'o ec2_object_scheme list) \<times> 'm manager_scheme" where
  "search_by_tags a wanted [] found m = (Inr found, m)"
| "search_by_tags a wanted (x # xs) found m =
     (case get_all_tags a (resource_filter (Some (obj_id x))) of
        Inl e \<Rightarrow> (Inl e, m\<lparr>calls := calls m @ [GetAllTags (resource_filter (Some (obj_id x)))]\<rparr>)
      | Inr got \<Rightarrow>
          search_by_tags a wanted xs
            (if tags_match wanted (dict_of got) then found @ [x] else found)
            (m\<lparr>calls := calls m @ [GetAllTags (resource_filter (Some (obj_id x)))]\<rparr>))"

text \<open>
  \<^verbatim>\<open>_set_tags\<close>. The three classes carry the same text (customer gateway lines 237-258,
  VPN gateway 277-299, VPN connection 282-305); it reads \<^verbatim>\<open>self.id\<close>, \<^verbatim>\<open>self.tags\<close> and the
  connection only, so one definition over any manager embeds the three. \<open>dictadd\<close> is the
  loop \<^verbatim>\<open>for (key, value) in set(self.tags.items()): if (key, value) not in
  set(tagdict.items()): dictadd[key] = value\<close>, run in the order of the list.
\<close>

definition dictadd :: "dict \<Rightarrow> dict \<Rightarrow> dict" where
  "dictadd wanted tagdict =
     fold (\<lambda>(key, val) d. if (key, val) \<notin> set tagdict then AList.update key val d else d) wanted []"

definition set_tags :: "aws \<Rightarrow> 'm manager_scheme \<Rightarrow> (exn + unit) \<times> 'm manager_scheme" where
  "set_tags a m =
     and_then (remote (GetAllTags (resource_filter (self_id m)))
                      (get_all_tags a (resource_filter (self_id m))))
       (\<lambda>gettags.
          and_then
            (if dictadd (tags m) (dict_of gettags) \<noteq> []
             then remote (CreateTags (self_id m) (dictadd (tags m) (dict_of gettags)))
                         (create_tags a (self_id m) (dictadd (tags m) (dict_of gettags)))
             else ret True)
            (\<lambda>tagger.
               and_then (remote (GetAllTags (resource_filter (self_id m)))
                                (get_all_tags a (resource_filter (self_id m))))
                 (\<lambda>gettags2. ret ()))) m"

text \<open>The four legal values of \<^verbatim>\<open>self.status\<close>.\<close>

definition status_ok :: "string \<Rightarrow> bool" where
  "status_ok s = (s = ''gone'' \<or> s = ''ok'' \<or> s = ''created'' \<or> s = ''deleted'')"

definition region_msg :: string where
  "region_msg = ''Region must be specified as a parameter, in EC2_REGION or AWS_REGION environment variables or in boto configuration file''"

section \<open>ec2_customer_gateway.py: CustomerGatewayManager\<close>

definition more_than_one_cgw_msg :: string where
  "more_than_one_cgw_msg = ''Found more than one customer gateway based on the supplied criteria, aborting''"

definition ip_required_msg :: string where
  "ip_required_msg = ''IP address is required for customer gateway creation''"

text \<open>\<^verbatim>\<open>_get_customer_gateway\<close> (lines 183-217); falling off the end returns \<^verbatim>\<open>None\<close>.\<close>

definition get_customer_gateway ::
  "aws \<Rightarrow> cgw_manager \<Rightarrow> (exn + customer_gateway option) \<times> cgw_manager" where
  "get_customer_gateway a m =
     and_then (remote (GetAllCustomerGateways NoArgs) (get_all_customer_gateways a NoArgs))
       (\<lambda>cgws m1.
          if truthy (self_id m1) then
            (case search_by_id (self_id m1) cgws of
               Some g \<Rightarrow> ret (Some g) (m1\<lparr>status := ''ok''\<rparr>)
             | None \<Rightarrow> ret None m1)
          else if tags m1 \<noteq> [] then
            and_then (search_by_tags a (tags m1) cgws [])
              (\<lambda>found_cgws m2.
                 if length found_cgws = 1 then
                   ret (Some (found_cgws ! 0))
                       (m2\<lparr>self_id := Some (obj_id (found_cgws ! 0)), status := ''ok''\<rparr>)
                 else if length found_cgws > 1 then
                   throw (FailJson more_than_one_cgw_msg) m2
                 else ret None m2) m1
          else ret None m1) m"

text \<open>
  \<^verbatim>\<open>__init__\<close> (lines 121-138). The argument record carries the constructor's arguments in
  the fields of the same names; its \<open>changed\<close>, \<open>status\<close>, \<open>calls\<close> and \<open>cgw\<close> are overwritten.
\<close>

definition CustomerGatewayManager :: "aws \<Rightarrow> cgw_manager \<Rightarrow> (exn + unit) \<times> cgw_manager" where
  "CustomerGatewayManager a args =
     and_then (get_aws_connection a)
       (\<lambda>u. and_then (get_customer_gateway a) (\<lambda>g m. ret () (m\<lparr>cgw := g\<rparr>)))
       (args\<lparr>changed := False, status := ''gone'', calls := [], cgw := None\<rparr>)"

text \<open>\<^verbatim>\<open>_create_cgw\<close> (lines 220-227).\<close>

definition create_cgw :: "aws \<Rightarrow> cgw_manager \<Rightarrow> (exn + unit) \<times> cgw_manager" where
  "create_cgw a m =
     and_then (remote (CreateCustomerGateway (self_type m) (ip_address m) (bgp_asn m))
                      (create_customer_gateway a (self_type m) (ip_address m) (bgp_asn m)))
       (\<lambda>r m1. case r of
            None \<Rightarrow> ret () (m1\<lparr>cgw := None\<rparr>)
          | Some g \<Rightarrow> ret () (m1\<lparr>cgw := Some g, self_id := Some (obj_id g),
                                 changed := True, status := ''created''\<rparr>)) m"

text \<open>\<^verbatim>\<open>_delete_cgw\<close> (lines 230-235).\<close>

definition delete_cgw :: "aws \<Rightarrow> cgw_manager \<Rightarrow> (exn + unit) \<times> cgw_manager" where
  "delete_cgw a m =
     and_then (remote (DeleteCustomerGateway (self_id m)) (delete_customer_gateway a (self_id m)))
       (\<lambda>r m1. if r then ret () (m1\<lparr>changed := True, status := ''deleted''\<rparr>) else ret () m1) m"

text \<open>\<^verbatim>\<open>ensure_ok\<close> (lines 140-147) and \<^verbatim>\<open>ensure_gone\<close> (lines 150-154).\<close>

definition cgw_ensure_ok :: "aws \<Rightarrow> cgw_manager \<Rightarrow> (exn + unit) \<times> cgw_manager" where
  "cgw_ensure_ok a m =
     and_then (if cgw m = None then create_cgw a else ret ()) (\<lambda>u. set_tags a) m"

definition cgw_ensure_gone :: "aws \<Rightarrow> cgw_manager \<Rightarrow> (exn + unit) \<times> cgw_manager" where
  "cgw_ensure_gone a m = (if cgw m \<noteq> None then delete_cgw a m else ret () m)"

text \<open>
  \<^verbatim>\<open>get_info\<close> (lines 157-181). The bare \<^verbatim>\<open>except:\<close> turns any exception of the fetch, and
  the \<^verbatim>\<open>IndexError\<close> of \<^verbatim>\<open>[0]\<close> on an empty answer, into \<^verbatim>\<open>check_aws = None\<close>. When neither
  \<^verbatim>\<open>self.id\<close> nor \<^verbatim>\<open>self.ip_address\<close> is truthy the \<^verbatim>\<open>try\<close> block assigns nothing and
  \<^verbatim>\<open>if not check_aws:\<close>, outside the \<^verbatim>\<open>try\<close>, reads an unbound local variable.
\<close>

definition first_or_none :: "exn + 'a list \<Rightarrow> 'a option" where
  "first_or_none r = (case r of Inl e \<Rightarrow> None | Inr [] \<Rightarrow> None | Inr (x # xs) \<Rightarrow> Some x)"

definition cgw_report :: "cgw_manager \<Rightarrow> customer_gateway option \<Rightarrow> info" where
  "cgw_report m check_aws =
     (case check_aws of
        None \<Rightarrow> [(''ip_address'', of_sid (ip_address m)), (''id'', of_sid (self_id m)),
                 (''status'', PStr (status m))]
      | Some g \<Rightarrow> [(''ip_address'', o_ip_address g), (''id'', PStr (obj_id g)),
                   (''bgp_asn'', o_bgp_asn g), (''type'', obj_type g),
                   (''status'', PStr (status m))])"

definition cgw_get_info :: "aws \<Rightarrow> cgw_manager \<Rightarrow> (exn + info) \<times> cgw_manager" where
  "cgw_get_info a m =
     (if truthy (self_id m) then
        ret (cgw_report m (first_or_none (get_all_customer_gateways a (Ids [self_id m]))))
            (m\<lparr>calls := calls m @ [GetAllCustomerGateways (Ids [self_id m])]\<rparr>)
      else if truthy (ip_address m) then
        ret (cgw_report m (first_or_none
               (get_all_customer_gateways a (Filters [(''ipAddress'', ip_address m)]))))
            (m\<lparr>calls := calls m @ [GetAllCustomerGateways (Filters [(''ipAddress'', ip_address m)])]\<rparr>)
      else throw (UnboundLocalError ''check_aws'') m)"

text \<open>
  \<^verbatim>\<open>main\<close> (lines 283-345) after argument parsing: the region, the state and the
  constructor's arguments. The outcome is the record given to \<^verbatim>\<open>exit_json\<close>, with the log.
\<close>

definition finish ::
  "(exn + info) \<times> 'm manager_scheme \<Rightarrow> (exn + result) \<times> call list" where
  "finish out =
     (case out of
        (Inl e, m) \<Rightarrow> (Inl e, calls m)
      | (Inr i, m) \<Rightarrow> (Inr \<lparr>r_changed = changed m, r_info = i\<rparr>, calls m))"

definition cgw_main :: "aws \<Rightarrow> sid \<Rightarrow> state \<Rightarrow> cgw_manager \<Rightarrow> (exn + result) \<times> call list" where
  "cgw_main a region st args =
     (if \<not> truthy region then (Inl (FailJson region_msg), [])
      else if st = present \<and> \<not> truthy (ip_address args) then (Inl (FailJson ip_required_msg), [])
      else finish
        (and_then (CustomerGatewayManager a)
           (\<lambda>u. and_then (case st of present \<Rightarrow> cgw_ensure_ok a | absent \<Rightarrow> cgw_ensure_gone a)
                   (\<lambda>u. cgw_get_info a)) args))"

section \<open>ec2_vpn_gateway.py: VPNGatewayManager\<close>

definition more_than_one_vpn_gw_msg :: string where
  "more_than_one_vpn_gw_msg = ''Found more than one vpn gateway based on the supplied criteria, aborting''"

text \<open>\<^verbatim>\<open>_get_vpn_gateway\<close> (lines 186-220).\<close>

definition get_vpn_gateway ::
  "aws \<Rightarrow> vpn_gw_manager \<Rightarrow> (exn + vpn_gateway option) \<times> vpn_gw_manager" where
  "get_vpn_gateway a m =
     and_then (remote (GetAllVpnGateways NoArgs) (get_all_vpn_gateways a NoArgs))
       (\<lambda>vpn_gws m1.
          if truthy (self_id m1) then
            (case search_by_id (self_id m1) vpn_gws of
               Some g \<Rightarrow> ret (Some g) (m1\<lparr>status := ''ok''\<rparr>)
             | None \<Rightarrow> ret None m1)
          else if tags m1 \<noteq> [] then
            and_then (search_by_tags a (tags m1) vpn_gws [])
              (\<lambda>found_vpn_gws m2.
                 if length found_vpn_gws = 1 then
                   ret (Some (found_vpn_gws ! 0))
                       (m2\<lparr>self_id := Some (obj_id (found_vpn_gws ! 0)), status := ''ok''\<rparr>)
                 else if length found_vpn_gws > 1 then
                   throw (FailJson more_than_one_vpn_gw_msg) m2
                 else ret None m2) m1
          else ret None m1) m"

text \<open>\<^verbatim>\<open>__init__\<close> (lines 121-139).\<close>

definition VPNGatewayManager :: "aws \<Rightarrow> vpn_gw_manager \<Rightarrow> (exn + unit) \<times> vpn_gw_manager" where
  "VPNGatewayManager a args =
     and_then (get_aws_connection a)
       (\<lambda>u. and_then (get_vpn_gateway a) (\<lambda>g m. ret () (m\<lparr>vpn_gw := g\<rparr>)))
       (args\<lparr>changed := False, status := ''gone'', calls := [],
             attach_status := ''detached'', vpn_gw := None\<rparr>)"

text \<open>\<^verbatim>\<open>_create_vpn_gw\<close>, \<^verbatim>\<open>_delete_vpn_gw\<close>, \<^verbatim>\<open>_attach_vpn_gw\<close>, \<^verbatim>\<open>_detach_vpn_gw\<close> (lines 224-253).\<close>

definition create_vpn_gw :: "aws \<Rightarrow> vpn_gw_manager \<Rightarrow> (exn + unit) \<times> vpn_gw_manager" where
  "create_vpn_gw a m =
     and_then (remote (CreateVpnGateway (self_type m) (availability_zone m))
                      (create_vpn_gateway a (self_type m) (availability_zone m)))
       (\<lambda>r m1. case r of
            None \<Rightarrow> ret () (m1\<lparr>vpn_gw := None\<rparr>)
          | Some g \<Rightarrow> ret () (m1\<lparr>vpn_gw := Some g, changed := True, status := ''created'',
                                 self_id := Some (obj_id g)\<rparr>)) m"

definition delete_vpn_gw :: "aws \<Rightarrow> vpn_gw_manager \<Rightarrow> (exn + unit) \<times> vpn_gw_manager" where
  "delete_vpn_gw a m =
     and_then (remote (DeleteVpnGateway (self_id m)) (delete_vpn_gateway a (self_id m)))
       (\<lambda>r m1. if r then ret () (m1\<lparr>changed := True, status := ''deleted''\<rparr>) else ret () m1) m"

definition attach_vpn_gw :: "aws \<Rightarrow> vpn_gw_manager \<Rightarrow> (exn + unit) \<times> vpn_gw_manager" where
  "attach_vpn_gw a m =
     and_then (remote (AttachVpnGateway (self_id m) (vpc m)) (attach_vpn_gateway a (self_id m) (vpc m)))
       (\<lambda>r m1. if r then ret () (m1\<lparr>changed := True, attach_status := ''attached''\<rparr>)
                else ret () m1) m"

definition detach_vpn_gw :: "aws \<Rightarrow> vpn_gw_manager \<Rightarrow> (exn + unit) \<times> vpn_gw_manager" where
  "detach_vpn_gw a m =
     and_then (remote (DetachVpnGateway (self_id m) (vpc m)) (detach_vpn_gateway a (self_id m) (vpc m)))
       (\<lambda>r m1. if r then ret () (m1\<lparr>changed := True, attach_status := ''detached''\<rparr>)
                else ret () m1) m"

text \<open>
  \<^verbatim>\<open>_enable_route_propagation\<close> and \<^verbatim>\<open>_disable_route_propagation\<close> (lines 255-275): the loop
  appends the truthy results; iterating over \<^verbatim>\<open>None\<close> is a \<^verbatim>\<open>TypeError\<close>.
\<close>

fun enable_loop ::
  "aws \<Rightarrow> string list \<Rightarrow> bool list \<Rightarrow> vpn_gw_manager \<Rightarrow> (exn + bool list) \<times> vpn_gw_manager" where
  "enable_loop a [] results m = (Inr results, m)"
| "enable_loop a (route # routes) results m =
     (case enable_vgw_route_propagation a route (self_id m) of
        Inl e \<Rightarrow> (Inl e, m\<lparr>calls := calls m @ [EnableVgwRoutePropagation route (self_id m)]\<rparr>)
      | Inr r \<Rightarrow>
          enable_loop a routes (if r then results @ [r] else results)
            (m\<lparr>calls := calls m @ [EnableVgwRoutePropagation route (self_id m)]\<rparr>))"

fun disable_loop ::
  "aws \<Rightarrow> string list \<Rightarrow> bool list \<Rightarrow> vpn_gw_manager \<Rightarrow> (exn + bool list) \<times> vpn_gw_manager" where
  "disable_loop a [] results m = (Inr results, m)"
| "disable_loop a (route # routes) results m =
     (case disable_vgw_route_propagation a route (self_id m) of
        Inl e \<Rightarrow> (Inl e, m\<lparr>calls := calls m @ [DisableVgwRoutePropagation route (self_id m)]\<rparr>)
      | Inr r \<Rightarrow>
          disable_loop a routes (if r then results @ [r] else results)
            (m\<lparr>calls := calls m @ [DisableVgwRoutePropagation route (self_id m)]\<rparr>))"

definition not_iterable_msg :: string where
  "not_iterable_msg = ''NoneType object is not iterable''"

definition enable_route_propagation :: "aws \<Rightarrow> vpn_gw_manager \<Rightarrow> (exn + unit) \<times> vpn_gw_manager" where
  "enable_route_propagation a m =
     (case route_table_ids m of
        None \<Rightarrow> throw (TypeError not_iterable_msg) m
      | Some routes \<Rightarrow>
          and_then (enable_loop a routes [])
            (\<lambda>results m1. if results \<noteq> [] then ret () (m1\<lparr>changed := True\<rparr>) else ret () m1) m)"

definition disable_route_propagation :: "aws \<Rightarrow> vpn_gw_manager \<Rightarrow> (exn + unit) \<times> vpn_gw_manager" where
  "disable_route_propagation a m =
     (case route_table_ids m of
        None \<Rightarrow> throw (TypeError not_iterable_msg) m
      | Some routes \<Rightarrow>
          and_then (disable_loop a routes [])
            (\<lambda>results m1. if results \<noteq> [] then ret () (m1\<lparr>changed := True\<rparr>) else ret () m1) m)"

text \<open>\<^verbatim>\<open>ensure_ok\<close> (lines 141-152) and \<^verbatim>\<open>ensure_gone\<close> (lines 154-161).\<close>

definition vpn_gw_ensure_ok :: "aws \<Rightarrow> vpn_gw_manager \<Rightarrow> (exn + unit) \<times> vpn_gw_manager" where
  "vpn_gw_ensure_ok a m =
     and_then (if vpn_gw m = None then create_vpn_gw a else ret ())
       (\<lambda>u. and_then (set_tags a)
          (\<lambda>u m1. if truthy (vpc m1) \<and> truthy (self_id m1) then attach_vpn_gw a m1 else ret () m1)) m"

definition vpn_gw_ensure_gone :: "aws \<Rightarrow> vpn_gw_manager \<Rightarrow> (exn + unit) \<times> vpn_gw_manager" where
  "vpn_gw_ensure_gone a m =
     and_then (if truthy (vpc m) \<and> truthy (self_id m) then detach_vpn_gw a else ret ())
       (\<lambda>u m1. if vpn_gw m1 \<noteq> None then delete_vpn_gw a m1 else ret () m1) m"

text \<open>\<^verbatim>\<open>get_info\<close> (lines 164-184).\<close>

definition vpn_gw_report :: "vpn_gw_manager \<Rightarrow> vpn_gateway option \<Rightarrow> info" where
  "vpn_gw_report m check_aws =
     (case check_aws of
        None \<Rightarrow> [(''id'', of_sid (self_id m)), (''status'', PStr (status m))]
      | Some g \<Rightarrow> [(''id'', PStr (obj_id g)), (''availability_zone'', o_availability_zone g),
                   (''type'', obj_type g), (''status'', PStr (status m)),
                   (''attach_status'', PStr (attach_status m))])"

definition vpn_gw_get_info :: "aws \<Rightarrow> vpn_gw_manager \<Rightarrow> (exn + info) \<times> vpn_gw_manager" where
  "vpn_gw_get_info a m =
     ret (vpn_gw_report m (first_or_none (get_all_vpn_gateways a (Ids [self_id m]))))
         (m\<lparr>calls := calls m @ [GetAllVpnGateways (Ids [self_id m])]\<rparr>)"

text \<open>
  \<^verbatim>\<open>main\<close> (lines 311-366). \<^verbatim>\<open>route_table_ids\<close> is the module parameter, also stored on the
  manager; as a condition it is a list that is neither \<^verbatim>\<open>None\<close> nor empty.
\<close>

definition nonempty_list :: "'a list option \<Rightarrow> bool" where
  "nonempty_list l = (case l of None \<Rightarrow> False | Some xs \<Rightarrow> xs \<noteq> [])"

definition vpn_gw_dispatch :: "aws \<Rightarrow> state \<Rightarrow> vpn_gw_manager \<Rightarrow> (exn + unit) \<times> vpn_gw_manager" where
  "vpn_gw_dispatch a st m =
     (case st of
        present \<Rightarrow> if nonempty_list (route_table_ids m) \<and> vpn_gw m \<noteq> None
                   then enable_route_propagation a m else vpn_gw_ensure_ok a m
      | absent \<Rightarrow> if nonempty_list (route_table_ids m) \<and> vpn_gw m \<noteq> None
                  then disable_route_propagation a m else vpn_gw_ensure_gone a m)"

definition vpn_gw_main :: "aws \<Rightarrow> sid \<Rightarrow> state \<Rightarrow> vpn_gw_manager \<Rightarrow> (exn + result) \<times> call list" where
  "vpn_gw_main a region st args =
     (if \<not> truthy region then (Inl (FailJson region_msg), [])
      else finish
        (and_then (VPNGatewayManager a)
           (\<lambda>u. and_then (vpn_gw_dispatch a st) (\<lambda>u. vpn_gw_get_info a)) args))"

section \<open>ec2_vpn_connection.py: VPNConnectionManager\<close>

definition more_than_one_vpn_conn_msg :: string where
  "more_than_one_vpn_conn_msg = ''Found more than one vpn connection based on the supplied criteria, aborting''"

text \<open>\<^verbatim>\<open>_get_vpn_connection\<close> (lines 203-237).\<close>

definition get_vpn_connection ::
  "aws \<Rightarrow> vpn_conn_manager \<Rightarrow> (exn + vpn_connection option) \<times> vpn_conn_manager" where
  "get_vpn_connection a m =
     and_then (remote (GetAllVpnConnections NoArgs) (get_all_vpn_connections a NoArgs))
       (\<lambda>vpn_conns m1.
          if truthy (self_id m1) then
            (case search_by_id (self_id m1) vpn_conns of
               Some g \<Rightarrow> ret (Some g) (m1\<lparr>status := ''ok''\<rparr>)
             | None \<Rightarrow> ret None m1)
          else if tags m1 \<noteq> [] then
            and_then (search_by_tags a (tags m1) vpn_conns [])
              (\<lambda>found_vpn_conns m2.
                 if length found_vpn_conns = 1 then
                   ret (Some (found_vpn_conns ! 0))
                       (m2\<lparr>self_id := Some (obj_id (found_vpn_conns ! 0)), status := ''ok''\<rparr>)
                 else if length found_vpn_conns > 1 then
                   throw (FailJson more_than_one_vpn_conn_msg) m2
                 else ret None m2) m1
          else ret None m1) m"

text \<open>\<^verbatim>\<open>__init__\<close> (lines 134-153).\<close>

definition VPNConnectionManager ::
  "aws \<Rightarrow> vpn_conn_manager \<Rightarrow> (exn + unit) \<times> vpn_conn_manager" where
  "VPNConnectionManager a args =
     and_then (get_aws_connection a)
       (\<lambda>u. and_then (get_vpn_connection a) (\<lambda>g m. ret () (m\<lparr>vpn_conn := g\<rparr>)))
       (args\<lparr>changed := False, status := ''gone'', calls := [], vpn_conn := None\<rparr>)"

text \<open>\<^verbatim>\<open>_create_vpn_conn\<close> (lines 241-252) and \<^verbatim>\<open>_delete_vpn_conn\<close> (lines 255-260).\<close>

definition create_vpn_conn :: "aws \<Rightarrow> vpn_conn_manager \<Rightarrow> (exn + unit) \<times> vpn_conn_manager" where
  "create_vpn_conn a m =
     and_then
       (remote (CreateVpnConnection (self_type m) (customer_gateway_id m) (vpn_gateway_id m)
                  (static_routes_only m))
               (create_vpn_connection a (self_type m) (customer_gateway_id m) (vpn_gateway_id m)
                  (static_routes_only m)))
       (\<lambda>r m1. case r of
            None \<Rightarrow> ret () (m1\<lparr>vpn_conn := None\<rparr>)
          | Some g \<Rightarrow> ret () (m1\<lparr>vpn_conn := Some g, changed := True, status := ''created'',
                                 self_id := Some (obj_id g)\<rparr>)) m"

definition delete_vpn_conn :: "aws \<Rightarrow> vpn_conn_manager \<Rightarrow> (exn + unit) \<times> vpn_conn_manager" where
  "delete_vpn_conn a m =
     and_then (remote (DeleteVpnConnection (self_id m)) (delete_vpn_connection a (self_id m)))
       (\<lambda>r m1. if r then ret () (m1\<lparr>changed := True, status := ''deleted''\<rparr>) else ret () m1) m"

text \<open>\<^verbatim>\<open>ensure_ok\<close> (lines 155-162) and \<^verbatim>\<open>ensure_gone\<close> (lines 165-170).\<close>

definition vpn_conn_ensure_ok :: "aws \<Rightarrow> vpn_conn_manager \<Rightarrow> (exn + unit) \<times> vpn_conn_manager" where
  "vpn_conn_ensure_ok a m =
     and_then (if vpn_conn m = None then create_vpn_conn a else ret ()) (\<lambda>u. set_tags a) m"

definition vpn_conn_ensure_gone :: "aws \<Rightarrow> vpn_conn_manager \<Rightarrow> (exn + unit) \<times> vpn_conn_manager" where
  "vpn_conn_ensure_gone a m = (if vpn_conn m \<noteq> None then delete_vpn_conn a m else ret () m)"

text \<open>\<^verbatim>\<open>get_info\<close> (lines 173-201).\<close>

definition vpn_conn_report :: "vpn_conn_manager \<Rightarrow> vpn_connection option \<Rightarrow> info" where
  "vpn_conn_report m check_aws =
     (case check_aws of
        None \<Rightarrow> [(''id'', of_sid (self_id m)), (''status'', PStr (status m))]
      | Some g \<Rightarrow> [(''id'', PStr (obj_id g)), (''state'', o_state g),
                   (''customer_gateway_configuration'', o_customer_gateway_configuration g),
                   (''type'', obj_type g),
                   (''customer_gateway_id'', o_customer_gateway_id g),
                   (''vpn_gateway_id'', o_vpn_gateway_id g),
                   (''tunnels'', PStr (o_tunnels g)),
                   (''options'', o_options g),
                   (''static_routes'', o_static_routes g),
                   (''status'', PStr (status m))])"

definition vpn_conn_get_info :: "aws \<Rightarrow> vpn_conn_manager \<Rightarrow> (exn + info) \<times> vpn_conn_manager" where
  "vpn_conn_get_info a m =
     ret (vpn_conn_report m (first_or_none (get_all_vpn_connections a (Ids [self_id m]))))
         (m\<lparr>calls := calls m @ [GetAllVpnConnections (Ids [self_id m])]\<rparr>)"

text \<open>\<^verbatim>\<open>main\<close> (lines 315-370).\<close>

definition vpn_conn_main ::
  "aws \<Rightarrow> sid \<Rightarrow> state \<Rightarrow> vpn_conn_manager \<Rightarrow> (exn + result) \<times> call list" where
  "vpn_conn_main a region st args =
     (if \<not> truthy region then (Inl (FailJson region_msg), [])
      else finish
        (and_then (VPNConnectionManager a)
           (\<lambda>u. and_then
                   (case st of present \<Rightarrow> vpn_conn_ensure_ok a | absent \<Rightarrow> vpn_conn_ensure_gone a)
                   (\<lambda>u. vpn_conn_get_info a)) args))"

section \<open>Sequences of operations on a manager\<close>

text \<open>
  The public operations of a manager, run one after another on the same object; an
  exception ends the sequence. \<open>Lookup\<close> re-runs the lookup and stores what it returns,
  as \<^verbatim>\<open>__init__\<close> does. The VPN gateway manager has the two route operations besides.
\<close>

datatype op = Lookup | EnsureOk | EnsureGone | GetInfo

datatype vpn_gw_op = Op op | EnableRoutes | DisableRoutes

definition forget :: "(exn + 'a) \<times> 's \<Rightarrow> (exn + unit) \<times> 's" where
  "forget out = (case out of (Inl e, s) \<Rightarrow> (Inl e, s) | (Inr x, s) \<Rightarrow> (Inr (), s))"

fun cgw_step :: "aws \<Rightarrow> op \<Rightarrow> cgw_manager \<Rightarrow> (exn + unit) \<times> cgw_manager" where
  "cgw_step a Lookup m = and_then (get_customer_gateway a) (\<lambda>g m1. ret () (m1\<lparr>cgw := g\<rparr>)) m"
| "cgw_step a EnsureOk m = cgw_ensure_ok a m"
| "cgw_step a EnsureGone m = cgw_ensure_gone a m"
| "cgw_step a GetInfo m = forget (cgw_get_info a m)"

fun vpn_gw_step :: "aws \<Rightarrow> vpn_gw_op \<Rightarrow> vpn_gw_manager \<Rightarrow> (exn + unit) \<times> vpn_gw_manager" where
  "vpn_gw_step a (Op Lookup) m = and_then (get_vpn_gateway a) (\<lambda>g m1. ret () (m1\<lparr>vpn_gw := g\<rparr>)) m"
| "vpn_gw_step a (Op EnsureOk) m = vpn_gw_ensure_ok a m"
| "vpn_gw_step a (Op EnsureGone) m = vpn_gw_ensure_gone a m"
| "vpn_gw_step a (Op GetInfo) m = forget (vpn_gw_get_info a m)"
| "vpn_gw_step a EnableRoutes m = enable_route_propagation a m"
| "vpn_gw_step a DisableRoutes m = disable_route_propagation a m"

fun vpn_conn_step :: "aws \<Rightarrow> op \<Rightarrow> vpn_conn_manager \<Rightarrow> (exn + unit) \<times> vpn_conn_manager" where
  "vpn_conn_step a Lookup m = and_then (get_vpn_connection a) (\<lambda>g m1. ret () (m1\<lparr>vpn_conn := g\<rparr>)) m"
| "vpn_conn_step a EnsureOk m = vpn_conn_ensure_ok a m"
| "vpn_conn_step a EnsureGone m = vpn_conn_ensure_gone a m"
| "vpn_conn_step a GetInfo m = forget (vpn_conn_get_info a m)"

text \<open>
  \<open>run\<close> returns the manager after each step taken, the starting one first, so that a
  property of every moment of a sequence can be stated.
\<close>

fun run :: "('o \<Rightarrow> 's \<Rightarrow> (exn + unit) \<times> 's) \<Rightarrow> 'o list \<Rightarrow> 's \<Rightarrow> 's list" where
  "run step [] s = [s]"
| "run step (x # xs) s =
     (case step x s of
        (Inl e, s') \<Rightarrow> [s, s']
      | (Inr u, s') \<Rightarrow> s # run step xs s')"

section \<open>Vocabulary of the properties\<close>

text \<open>
  The tag dictionary the remote reports for a resource, and the resources of a list that
  match a wanted tag set: every wanted key/value pair is among the resource's tags.
\<close>

definition remote_dict :: "aws \<Rightarrow> 'o ec2_object_scheme \<Rightarrow> dict" where
  "remote_dict a x =
     (case get_all_tags a (resource_filter (Some (obj_id x))) of Inl e \<Rightarrow> [] | Inr ts \<Rightarrow> dict_of ts)"

definition matching :: "aws \<Rightarrow> dict \<Rightarrow> 'o ec2_object_scheme list \<Rightarrow> 'o ec2_object_scheme list" where
  "matching a wanted xs = filter (\<lambda>x. set wanted \<subseteq> set (remote_dict a x)) xs"

text \<open>
  \<open>keeps m m'\<close>: from \<open>m\<close> to \<open>m'\<close> the flag \<open>changed\<close> is not reset and a legal status stays
  legal. \<open>preserves R f\<close>: every run of the method \<open>f\<close> relates the manager before to the
  manager after, also when it raises.
\<close>

definition keeps :: "'m manager_scheme \<Rightarrow> 'm manager_scheme \<Rightarrow> bool" where
  "keeps m m' = ((changed m \<longrightarrow> changed m') \<and> (status_ok (status m) \<longrightarrow> status_ok (status m')))"

definition preserves :: "('s \<Rightarrow> 's \<Rightarrow> bool) \<Rightarrow> ('s \<Rightarrow> 'r \<times> 's) \<Rightarrow> bool" where
  "preserves R f = (\<forall>s. R s (snd (f s)))"

text \<open>
  In the VPN gateway class the tags are followed by the attachment: after \<^verbatim>\<open>_set_tags\<close>
  the method issues at most the attach call.
\<close>

definition tags_then_attach :: "aws \<Rightarrow> vpn_gw_manager \<Rightarrow> (exn + unit) \<times> vpn_gw_manager" where
  "tags_then_attach a =
     and_then (set_tags a)
       (\<lambda>u m1. if truthy (vpc m1) \<and> truthy (self_id m1) then attach_vpn_gw a m1 else ret () m1)"

section \<open>Example remotes and arguments\<close>

text \<open>
  The objects and parameters of the modules' \<^verbatim>\<open>EXAMPLES\<close>. \<open>empty_aws\<close> is a remote that
  holds no resource and on which every call succeeds.
\<close>

definition example_cgw :: customer_gateway where
  "example_cgw = \<lparr>obj_id = ''cgw-ec60bff4'', obj_type = PStr ''ipsec.1'',
                   o_ip_address = PStr ''1.1.1.1'', o_bgp_asn = PInt 65000\<rparr>"

definition example_vpn_gw :: vpn_gateway where
  "example_vpn_gw = \<lparr>obj_id = ''vgw-e961bef7'', obj_type = PStr ''ipsec.1'',
                      o_availability_zone = PStr ''us-west-2a''\<rparr>"

definition example_vpn_conn :: vpn_connection where
  "example_vpn_conn = \<lparr>obj_id = ''vpn-b0fbe4a2'', obj_type = PStr ''ipsec.1'',
      o_state = PStr ''available'', o_customer_gateway_configuration = PNone,
      o_customer_gateway_id = PStr ''cgw-ec60bff4'', o_vpn_gateway_id = PStr ''vgw-e961bef7'',
      o_tunnels = ''[]'', o_options = PNone, o_static_routes = PNone\<rparr>"

definition empty_aws :: aws where
  "empty_aws = \<lparr>
     connect_to_aws = Inr (),
     get_all_tags = (\<lambda>q. Inr []),
     create_tags = (\<lambda>i d. Inr True),
     get_all_customer_gateways = (\<lambda>q. Inr []),
     create_customer_gateway = (\<lambda>t ip asn. Inr (Some example_cgw)),
     delete_customer_gateway = (\<lambda>i. Inr True),
     get_all_vpn_gateways = (\<lambda>q. Inr []),
     create_vpn_gateway = (\<lambda>t az. Inr (Some example_vpn_gw)),
     delete_vpn_gateway = (\<lambda>i. Inr True),
     attach_vpn_gateway = (\<lambda>i v. Inr True),
     detach_vpn_gateway = (\<lambda>i v. Inr True),
     enable_vgw_route_propagation = (\<lambda>r i. Inr True),
     disable_vgw_route_propagation = (\<lambda>r i. Inr True),
     get_all_vpn_connections = (\<lambda>q. Inr []),
     create_vpn_connection = (\<lambda>t c v s. Inr (Some example_vpn_conn)),
     delete_vpn_connection = (\<lambda>i. Inr True)\<rparr>"

definition cgw_args :: cgw_manager where
  "cgw_args = \<lparr>self_id = None, self_type = Some ''ipsec.1'',
     tags = [(''Name'', ''example_cgw_w_bgp'')], changed = False, status = ''gone'', calls = [],
     ip_address = Some ''1.1.1.1'', bgp_asn = Some 65000, cgw = None\<rparr>"

definition vpn_gw_args :: vpn_gw_manager where
  "vpn_gw_args = \<lparr>self_id = None, self_type = Some ''ipsec.1'',
     tags = [(''Name'', ''example_vpn_gateway'')], changed = False, status = ''gone'', calls = [],
     availability_zone = Some ''us-west-2a'', vpc = Some ''vpc-fgafegf'', route_table_ids = None,
     attach_status = ''detached'', vpn_gw = None\<rparr>"

definition vpn_conn_args :: vpn_conn_manager where
  "vpn_conn_args = \<lparr>self_id = None, self_type = Some ''ipsec.1'',
     tags = [(''Name'', ''example_vpn_connection'')], changed = False, status = ''gone'', calls = [],
     customer_gateway_id = Some ''cgw-efgi31g'', vpn_gateway_id = Some ''vgw-e961bef7'',
     conn_vpc = Some ''vpc-fgafegf'', static_routes_only = False, static_routes = None,
     vpn_conn = None\<rparr>"

text \<open>
  The scenario of the specification's tag example: the remote reports the tags \<open>{A: 1}\<close>
  and the manager of an existing customer gateway wants \<open>{A: 1, B: 2}\<close>.
\<close>

definition tagged_aws :: aws where
  "tagged_aws = empty_aws\<lparr>get_all_tags := (\<lambda>q. Inr [(''A'', ''1'')])\<rparr>"

definition ab_manager :: cgw_manager where
  "ab_manager = cgw_args\<lparr>self_id := Some ''cgw-ec60bff4'', tags := [(''A'', ''1''), (''B'', ''2'')],
                          cgw := Some example_cgw, status := ''ok''\<rparr>"

text \<open>
  The same remote holding the customer gateway of the examples, and the module arguments
  that name it by id and want \<open>{A: 1, B: 2}\<close>.
\<close>

definition found_aws :: aws where
  "found_aws = tagged_aws\<lparr>get_all_customer_gateways := (\<lambda>q. Inr [example_cgw])\<rparr>"

definition ab_args :: cgw_manager where
  "ab_args = cgw_args\<lparr>self_id := Some ''cgw-ec60bff4'', tags := [(''A'', ''1''), (''B'', ''2'')]\<rparr>"

text \<open>
  A remote that holds the three resources of the examples, untagged, and the module
  arguments that name them by id, with the managers their constructors build.
\<close>

definition stocked_aws :: aws where
  "stocked_aws = empty_aws\<lparr>
     get_all_customer_gateways := (\<lambda>q. Inr [example_cgw]),
     get_all_vpn_gateways := (\<lambda>q. Inr [example_vpn_gw]),
     get_all_vpn_connections := (\<lambda>q. Inr [example_vpn_conn])\<rparr>"

definition cgw_by_id :: cgw_manager where
  "cgw_by_id = cgw_args\<lparr>self_id := Some ''cgw-ec60bff4''\<rparr>"

definition vpn_gw_by_id :: vpn_gw_manager where
  "vpn_gw_by_id = vpn_gw_args\<lparr>self_id := Some ''vgw-e961bef7''\<rparr>"

definition vpn_conn_by_id :: vpn_conn_manager where
  "vpn_conn_by_id = vpn_conn_args\<lparr>self_id := Some ''vpn-b0fbe4a2''\<rparr>"

definition cgw_found :: cgw_manager where
  "cgw_found = cgw_by_id\<lparr>calls := [GetAllCustomerGateways NoArgs], status := ''ok'',
                          cgw := Some example_cgw\<rparr>"

definition vpn_gw_found :: vpn_gw_manager where
  "vpn_gw_found = vpn_gw_by_id\<lparr>calls := [GetAllVpnGateways NoArgs], status := ''ok'',
                                vpn_gw := Some example_vpn_gw\<rparr>"

definition vpn_conn_found :: vpn_conn_manager where
  "vpn_conn_found = vpn_conn_by_id\<lparr>calls := [GetAllVpnConnections NoArgs], status := ''ok'',
                                    vpn_conn := Some example_vpn_conn\<rparr>"

text \<open>
  The customer gateway module called with \<^verbatim>\<open>state: absent\<close> and tags only: no id and no
  ip address.
\<close>

definition tags_only_args :: cgw_manager where
  "tags_only_args = cgw_args\<lparr>ip_address := None\<rparr>"

text \<open>
  A remote that holds two resources of each kind, all carrying the tag \<open>{Name: twin}\<close>,
  and module arguments that look that tag up without an id.
\<close>

definition twin_aws :: aws where
  "twin_aws = empty_aws\<lparr>
     get_all_tags := (\<lambda>q. Inr [(''Name'', ''twin'')]),
     get_all_customer_gateways := (\<lambda>q. Inr [example_cgw, example_cgw\<lparr>obj_id := ''cgw-2''\<rparr>]),
     get_all_vpn_gateways := (\<lambda>q. Inr [example_vpn_gw, example_vpn_gw\<lparr>obj_id := ''vgw-2''\<rparr>]),
     get_all_vpn_connections :=
       (\<lambda>q. Inr [example_vpn_conn, example_vpn_conn\<lparr>obj_id := ''vpn-2''\<rparr>])\<rparr>"

definition cgw_twin_args :: cgw_manager where
  "cgw_twin_args = cgw_args\<lparr>tags := [(''Name'', ''twin'')]\<rparr>"

definition vpn_gw_twin_args :: vpn_gw_manager where
  "vpn_gw_twin_args = vpn_gw_args\<lparr>tags := [(''Name'', ''twin'')]\<rparr>"

definition vpn_conn_twin_args :: vpn_conn_manager where
  "vpn_conn_twin_args = vpn_conn_args\<lparr>tags := [(''Name'', ''twin'')]\<rparr>"

definition cgw_twin_by_id :: cgw_manager where
  "cgw_twin_by_id = cgw_twin_args\<lparr>self_id := Some ''cgw-ec60bff4''\<rparr>"

text \<open>
  The VPN gateway module called with the id of the existing gateway and two route tables.
\<close>

definition vpn_gw_routes_args :: vpn_gw_manager where
  "vpn_gw_routes_args = vpn_gw_by_id\<lparr>route_table_ids := Some [''rtb-1'', ''rtb-2'']\<rparr>"

definition vpn_gw_routes_found :: vpn_gw_manager where
  "vpn_gw_routes_found = vpn_gw_found\<lparr>route_table_ids := Some [''rtb-1'', ''rtb-2'']\<rparr>"

section \<open>Tag reconciliation\<close>

text \<open>The definitions a concrete run is evaluated with.\<close>

lemmas eval_defs =
  truthy_def finish_def get_aws_connection_def and_then_def remote_def ret_def throw_def
  resource_filter_def first_or_none_def forget_def nonempty_list_def tags_match_def
  dict_of_def dictadd_def of_sid_def
  set_tags_def
  CustomerGatewayManager_def get_customer_gateway_def create_cgw_def delete_cgw_def
  cgw_ensure_ok_def cgw_ensure_gone_def cgw_get_info_def cgw_report_def cgw_main_def
  VPNGatewayManager_def get_vpn_gateway_def create_vpn_gw_def delete_vpn_gw_def
  attach_vpn_gw_def detach_vpn_gw_def enable_route_propagation_def
  disable_route_propagation_def vpn_gw_ensure_ok_def vpn_gw_ensure_gone_def
  vpn_gw_get_info_def vpn_gw_report_def vpn_gw_dispatch_def vpn_gw_main_def
  VPNConnectionManager_def get_vpn_connection_def create_vpn_conn_def delete_vpn_conn_def
  vpn_conn_ensure_ok_def vpn_conn_ensure_gone_def vpn_conn_get_info_def vpn_conn_report_def
  vpn_conn_main_def

lemmas example_defs =
  empty_aws_def cgw_args_def vpn_gw_args_def vpn_conn_args_def example_cgw_def
  example_vpn_gw_def example_vpn_conn_def stocked_aws_def cgw_by_id_def vpn_gw_by_id_def
  vpn_conn_by_id_def cgw_found_def vpn_gw_found_def vpn_conn_found_def tags_only_args_def
  twin_aws_def cgw_twin_args_def vpn_gw_twin_args_def vpn_conn_twin_args_def
  vpn_gw_routes_args_def vpn_gw_routes_found_def cgw_twin_by_id_def

lemma update_fresh: "k \<notin> fst ` set al \<Longrightarrow> AList.update k v al = al @ [(k, v)]"
  by (induction al) auto

lemma dictadd_fold:
  "distinct (map fst wanted) \<Longrightarrow> fst ` set acc \<inter> fst ` set wanted = {} \<Longrightarrow>
   fold (\<lambda>(key, val) d. if (key, val) \<notin> set tagdict then AList.update key val d else d) wanted acc
     = acc @ filter (\<lambda>p. p \<notin> set tagdict) wanted"
proof (induction wanted arbitrary: acc)
  case Nil
  then show ?case by simp
next
  case (Cons p wanted)
  obtain k v where p: "p = (k, v)" by (cases p)
  from Cons.prems have fresh: "k \<notin> fst ` set acc" and d: "distinct (map fst wanted)"
    and kw: "k \<notin> fst ` set wanted" and disj: "fst ` set acc \<inter> fst ` set wanted = {}"
    by (auto simp: p)
  show ?case
  proof (cases "(k, v) \<in> set tagdict")
    case True
    then show ?thesis using Cons.IH[OF d disj] by (simp add: p)
  next
    case False
    have "fst ` set (acc @ [(k, v)]) \<inter> fst ` set wanted = {}" using disj kw by auto
    from Cons.IH[OF d this] False fresh show ?thesis by (simp add: p update_fresh)
  qed
qed

text \<open>On a dictionary the loop computes the wanted pairs that the remote lacks, in any order.\<close>

lemma dictadd_filter:
  "is_dict wanted \<Longrightarrow> dictadd wanted tagdict = filter (\<lambda>p. p \<notin> set tagdict) wanted"
  using dictadd_fold[of wanted "[]" tagdict] by (simp add: dictadd_def is_dict_def)

lemma dictadd_set: "is_dict wanted \<Longrightarrow> set (dictadd wanted tagdict) = set wanted - set tagdict"
  by (auto simp: dictadd_filter)

lemma dictadd_empty:
  "is_dict wanted \<Longrightarrow> (dictadd wanted tagdict = []) = (set wanted \<subseteq> set tagdict)"
  by (auto simp: dictadd_filter filter_empty_conv)


lemma issued_append: "calls (snd (f m)) = calls m @ cs \<Longrightarrow> issued f m = cs"
  by (simp add: issued_def)

lemma set_tags_cases:
  "set_tags a m =
    (case get_all_tags a (resource_filter (self_id m)) of
       Inl e \<Rightarrow> (Inl e, m\<lparr>calls := calls m @ [GetAllTags (resource_filter (self_id m))]\<rparr>)
     | Inr got \<Rightarrow>
        if dictadd (tags m) (dict_of got) = [] then
          (case get_all_tags a (resource_filter (self_id m)) of Inl e \<Rightarrow> Inl e | Inr x \<Rightarrow> Inr (),
           m\<lparr>calls := calls m @ [GetAllTags (resource_filter (self_id m)),
                                  GetAllTags (resource_filter (self_id m))]\<rparr>)
        else
          (case create_tags a (self_id m) (dictadd (tags m) (dict_of got)) of
             Inl e \<Rightarrow> (Inl e, m\<lparr>calls := calls m @ [GetAllTags (resource_filter (self_id m)),
                          CreateTags (self_id m) (dictadd (tags m) (dict_of got))]\<rparr>)
           | Inr t \<Rightarrow> (Inr (), m\<lparr>calls := calls m @ [GetAllTags (resource_filter (self_id m)),
                          CreateTags (self_id m) (dictadd (tags m) (dict_of got)),
                          GetAllTags (resource_filter (self_id m))]\<rparr>)))"
  by (auto simp: set_tags_def and_then_def remote_def ret_def split: sum.splits)

lemma set_tags_issued:
  "issued (set_tags a) m =
    (case get_all_tags a (resource_filter (self_id m)) of
       Inl e \<Rightarrow> [GetAllTags (resource_filter (self_id m))]
     | Inr got \<Rightarrow>
        if dictadd (tags m) (dict_of got) = [] then
          [GetAllTags (resource_filter (self_id m)), GetAllTags (resource_filter (self_id m))]
        else
          (case create_tags a (self_id m) (dictadd (tags m) (dict_of got)) of
             Inl e \<Rightarrow> [GetAllTags (resource_filter (self_id m)),
                          CreateTags (self_id m) (dictadd (tags m) (dict_of got))]
           | Inr t \<Rightarrow> [GetAllTags (resource_filter (self_id m)),
                          CreateTags (self_id m) (dictadd (tags m) (dict_of got)),
                          GetAllTags (resource_filter (self_id m))]))"
  by (simp add: issued_def set_tags_cases split: sum.splits)

text \<open>\<^verbatim>\<open>_set_tags\<close> changes nothing on the manager; only the log grows.\<close>

lemma set_tags_frame: "snd (set_tags a m) = m\<lparr>calls := calls m @ issued (set_tags a) m\<rparr>"
  by (simp add: set_tags_issued set_tags_cases split: sum.splits)



text \<open>
  Claim C5 fails on the code by a slip. The other methods that change the remote
  (\<^verbatim>\<open>_create_*\<close>, \<^verbatim>\<open>_delete_*\<close>, \<^verbatim>\<open>_attach_vpn_gw\<close>, \<^verbatim>\<open>_detach_vpn_gw\<close>, the route operations) set
  \<^verbatim>\<open>self.changed\<close> on a truthy result; \<^verbatim>\<open>_set_tags\<close> stores the result of \<^verbatim>\<open>create_tags\<close> in
  \<^verbatim>\<open>tagger\<close> and drops it. With the remote tags \<open>{A: 1}\<close> and the desired tags
  \<open>{A: 1, B: 2}\<close> the difference is \<open>{B: 2}\<close>, one \<^verbatim>\<open>create_tags\<close> call with it is issued,
  the flag is still false afterwards, and the whole invocation reports \<open>changed = False\<close>.
\<close>

theorem set_tags_leaves_changed_false:
  "dictadd (tags ab_manager) (dict_of [(''A'', ''1'')]) = [(''B'', ''2'')] \<and>
   issued (set_tags tagged_aws) ab_manager =
     [GetAllTags (resource_filter (Some ''cgw-ec60bff4'')),
      CreateTags (Some ''cgw-ec60bff4'') [(''B'', ''2'')],
      GetAllTags (resource_filter (Some ''cgw-ec60bff4''))] \<and>
   \<not> changed (snd (set_tags tagged_aws ab_manager)) \<and>
   cgw_main found_aws (Some ''us-west-2'') present ab_args =
     (Inr \<lparr>r_changed = False,
           r_info = [(''ip_address'', PStr ''1.1.1.1''), (''id'', PStr ''cgw-ec60bff4''),
                     (''bgp_asn'', PInt 65000), (''type'', PStr ''ipsec.1''),
                     (''status'', PStr ''ok'')]\<rparr>,
      [GetAllCustomerGateways NoArgs,
       GetAllTags (resource_filter (Some ''cgw-ec60bff4'')),
       CreateTags (Some ''cgw-ec60bff4'') [(''B'', ''2'')],
       GetAllTags (resource_filter (Some ''cgw-ec60bff4'')),
       GetAllCustomerGateways (Ids [Some ''cgw-ec60bff4''])])"
  by (simp add: set_tags_issued set_tags_frame set_tags_cases
        ab_manager_def ab_args_def cgw_args_def found_aws_def tagged_aws_def empty_aws_def
        example_cgw_def dict_of_def dictadd_def
        cgw_main_def truthy_def finish_def CustomerGatewayManager_def get_aws_connection_def
        get_customer_gateway_def cgw_ensure_ok_def cgw_get_info_def cgw_report_def
        first_or_none_def and_then_def remote_def ret_def throw_def resource_filter_def)

section \<open>What a method leaves untouched\<close>

lemma keeps_refl: "keeps m m"
  by (simp add: keeps_def)

lemma keeps_trans: "keeps m m1 \<Longrightarrow> keeps m1 m2 \<Longrightarrow> keeps m m2"
  by (simp add: keeps_def)

lemma keeps_calls: "keeps m (m\<lparr>calls := cs\<rparr>)"
  by (simp add: keeps_def)

lemma preserves_and_then:
  assumes "\<And>x y z. R x y \<Longrightarrow> R y z \<Longrightarrow> R x z" "preserves R f" "\<And>x. preserves R (g x)"
  shows "preserves R (and_then f g)"
  unfolding preserves_def
proof
  fix s
  obtain r s' where fs: "f s = (r, s')" by (cases "f s")
  have 1: "R s s'" using assms(2) fs by (auto simp: preserves_def dest: spec[of _ s])
  show "R s (snd (and_then f g s))"
  proof (cases r)
    case (Inl e)
    then show ?thesis using 1 fs by (simp add: and_then_def)
  next
    case (Inr x)
    have "R s' (snd (g x s'))" using assms(3)[of x] by (simp add: preserves_def)
    then show ?thesis using 1 fs Inr assms(1) by (auto simp: and_then_def)
  qed
qed

lemma keeps_and_then:
  "preserves keeps f \<Longrightarrow> (\<And>x. preserves keeps (g x)) \<Longrightarrow> preserves keeps (and_then f g)"
  by (rule preserves_and_then) (auto intro: keeps_trans)

lemma keeps_ret: "preserves keeps (ret x)"
  by (simp add: preserves_def ret_def keeps_refl)

lemma keeps_throw: "preserves keeps (throw e)"
  by (simp add: preserves_def throw_def keeps_refl)

lemma keeps_remote: "preserves keeps (remote c answer)"
  by (simp add: preserves_def remote_def keeps_calls)

lemma keeps_if:
  "preserves keeps f \<Longrightarrow> preserves keeps g \<Longrightarrow> preserves keeps (\<lambda>m. if b m then f m else g m)"
  by (simp add: preserves_def)

lemma keeps_get_aws_connection: "preserves keeps (get_aws_connection a)"
  by (auto simp: preserves_def get_aws_connection_def ret_def throw_def keeps_refl
           split: sum.splits exn.splits)

lemma search_by_tags_frame:
  "\<exists>cs. snd (search_by_tags a w xs found m) = m\<lparr>calls := calls m @ cs\<rparr> \<and> (\<forall>c\<in>set cs. \<not> mutating c)"
proof (induction xs arbitrary: found m)
  case Nil
  show ?case by (rule exI[of _ "[]"]) simp
next
  case (Cons x xs)
  let ?c = "GetAllTags (resource_filter (Some (obj_id x)))"
  show ?case
  proof (cases "get_all_tags a (resource_filter (Some (obj_id x)))")
    case (Inl e)
    show ?thesis by (rule exI[of _ "[?c]"]) (simp add: Inl)
  next
    case (Inr got)
    obtain cs where cs: "snd (search_by_tags a w xs
        (if tags_match w (dict_of got) then found @ [x] else found) (m\<lparr>calls := calls m @ [?c]\<rparr>))
        = (m\<lparr>calls := calls m @ [?c]\<rparr>)\<lparr>calls := calls (m\<lparr>calls := calls m @ [?c]\<rparr>) @ cs\<rparr>"
       and nm: "\<forall>c\<in>set cs. \<not> mutating c"
      using Cons.IH by blast
    show ?thesis by (rule exI[of _ "?c # cs"]) (simp add: Inr cs nm)
  qed
qed

lemma search_by_tags_result:
  "search_by_tags a w xs found m = (r, m') \<Longrightarrow>
     \<exists>cs. m' = m\<lparr>calls := calls m @ cs\<rparr> \<and> (\<forall>c\<in>set cs. \<not> mutating c)"
  using search_by_tags_frame[of a w xs found m] by simp

lemma keeps_search_by_tags: "preserves keeps (search_by_tags a w xs found)"
  unfolding preserves_def
proof
  fix m
  show "keeps m (snd (search_by_tags a w xs found m))"
    using search_by_tags_frame[of a w xs found m] by (auto simp: keeps_calls)
qed

lemma keeps_set_tags: "preserves keeps (set_tags a)"
  by (simp add: preserves_def set_tags_frame keeps_calls)

lemma keeps_get_customer_gateway: "preserves keeps (get_customer_gateway a)"
  unfolding get_customer_gateway_def
  by (intro keeps_and_then keeps_remote)
     (auto simp: preserves_def ret_def throw_def and_then_def keeps_def status_ok_def
           split: option.splits sum.splits prod.splits
           dest!: search_by_tags_result)

lemma keeps_get_vpn_gateway: "preserves keeps (get_vpn_gateway a)"
  unfolding get_vpn_gateway_def
  by (intro keeps_and_then keeps_remote)
     (auto simp: preserves_def ret_def throw_def and_then_def keeps_def status_ok_def
           split: option.splits sum.splits prod.splits
           dest!: search_by_tags_result)

lemma keeps_get_vpn_connection: "preserves keeps (get_vpn_connection a)"
  unfolding get_vpn_connection_def
  by (intro keeps_and_then keeps_remote)
     (auto simp: preserves_def ret_def throw_def and_then_def keeps_def status_ok_def
           split: option.splits sum.splits prod.splits
           dest!: search_by_tags_result)

lemma keeps_store:
  "preserves keeps (\<lambda>m. ret () (m\<lparr>cgw := g\<rparr>))"
  "preserves keeps (\<lambda>m. ret () (m\<lparr>vpn_gw := g2\<rparr>))"
  "preserves keeps (\<lambda>m. ret () (m\<lparr>vpn_conn := g3\<rparr>))"
  by (simp_all add: preserves_def ret_def keeps_def)

lemma keeps_atomic:
  "preserves keeps (create_cgw a)" "preserves keeps (delete_cgw a)"
  "preserves keeps (create_vpn_gw a)" "preserves keeps (delete_vpn_gw a)"
  "preserves keeps (attach_vpn_gw a)" "preserves keeps (detach_vpn_gw a)"
  "preserves keeps (create_vpn_conn a)" "preserves keeps (delete_vpn_conn a)"
  by (auto simp: preserves_def create_cgw_def delete_cgw_def create_vpn_gw_def delete_vpn_gw_def
        attach_vpn_gw_def detach_vpn_gw_def create_vpn_conn_def delete_vpn_conn_def
        and_then_def remote_def ret_def keeps_def status_ok_def
        split: sum.splits option.splits)

lemma keeps_get_info:
  "preserves keeps (cgw_get_info a)" "preserves keeps (vpn_gw_get_info a)"
  "preserves keeps (vpn_conn_get_info a)"
  by (auto simp: preserves_def cgw_get_info_def vpn_gw_get_info_def vpn_conn_get_info_def
        ret_def throw_def keeps_def)

lemma snd_forget: "snd (forget out) = snd out"
  by (simp add: forget_def split: prod.splits sum.splits)

lemma keeps_forget: "preserves keeps f \<Longrightarrow> preserves keeps (\<lambda>m. forget (f m))"
  by (simp add: preserves_def snd_forget)

lemma enable_loop_frame:
  "\<exists>cs. snd (enable_loop a routes results m) = m\<lparr>calls := calls m @ cs\<rparr>"
proof (induction routes arbitrary: results m)
  case Nil
  show ?case by (rule exI[of _ "[]"]) simp
next
  case (Cons route routes)
  let ?c = "EnableVgwRoutePropagation route (self_id m)"
  show ?case
  proof (cases "enable_vgw_route_propagation a route (self_id m)")
    case (Inl e)
    show ?thesis by (rule exI[of _ "[?c]"]) (simp add: Inl)
  next
    case (Inr r)
    obtain cs where cs: "snd (enable_loop a routes (if r then results @ [r] else results)
         (m\<lparr>calls := calls m @ [?c]\<rparr>))
        = (m\<lparr>calls := calls m @ [?c]\<rparr>)\<lparr>calls := calls (m\<lparr>calls := calls m @ [?c]\<rparr>) @ cs\<rparr>"
      using Cons.IH by blast
    show ?thesis by (rule exI[of _ "?c # cs"]) (simp add: Inr cs)
  qed
qed

lemma disable_loop_frame:
  "\<exists>cs. snd (disable_loop a routes results m) = m\<lparr>calls := calls m @ cs\<rparr>"
proof (induction routes arbitrary: results m)
  case Nil
  show ?case by (rule exI[of _ "[]"]) simp
next
  case (Cons route routes)
  let ?c = "DisableVgwRoutePropagation route (self_id m)"
  show ?case
  proof (cases "disable_vgw_route_propagation a route (self_id m)")
    case (Inl e)
    show ?thesis by (rule exI[of _ "[?c]"]) (simp add: Inl)
  next
    case (Inr r)
    obtain cs where cs: "snd (disable_loop a routes (if r then results @ [r] else results)
         (m\<lparr>calls := calls m @ [?c]\<rparr>))
        = (m\<lparr>calls := calls m @ [?c]\<rparr>)\<lparr>calls := calls (m\<lparr>calls := calls m @ [?c]\<rparr>) @ cs\<rparr>"
      using Cons.IH by blast
    show ?thesis by (rule exI[of _ "?c # cs"]) (simp add: Inr cs)
  qed
qed

lemma loop_result:
  "enable_loop a routes results m = (r, m') \<Longrightarrow> \<exists>cs. m' = m\<lparr>calls := calls m @ cs\<rparr>"
  "disable_loop a routes results m = (r, m') \<Longrightarrow> \<exists>cs. m' = m\<lparr>calls := calls m @ cs\<rparr>"
  using enable_loop_frame[of a routes results m] disable_loop_frame[of a routes results m]
  by simp_all

lemma keeps_route_propagation:
  "preserves keeps (enable_route_propagation a)" "preserves keeps (disable_route_propagation a)"
  by (auto simp: preserves_def enable_route_propagation_def disable_route_propagation_def
        and_then_def ret_def throw_def keeps_def
        split: option.splits prod.splits sum.splits dest!: loop_result)

lemma keeps_and_then_at:
  "preserves keeps f \<Longrightarrow> (\<And>x. preserves keeps (g x)) \<Longrightarrow> keeps m (snd (and_then f g m))"
  using keeps_and_then[of f g] by (simp add: preserves_def)

lemma keeps_ensure:
  "preserves keeps (cgw_ensure_ok a)" "preserves keeps (cgw_ensure_gone a)"
  "preserves keeps (vpn_conn_ensure_ok a)" "preserves keeps (vpn_conn_ensure_gone a)"
  "preserves keeps (vpn_gw_ensure_ok a)" "preserves keeps (vpn_gw_ensure_gone a)"
proof -
  show "preserves keeps (cgw_ensure_ok a)"
    unfolding cgw_ensure_ok_def preserves_def
    by (intro allI keeps_and_then_at) (simp_all add: keeps_atomic keeps_ret keeps_set_tags)
  show "preserves keeps (cgw_ensure_gone a)"
    unfolding cgw_ensure_gone_def by (rule keeps_if) (simp_all add: keeps_atomic keeps_ret)
  show "preserves keeps (vpn_conn_ensure_ok a)"
    unfolding vpn_conn_ensure_ok_def preserves_def
    by (intro allI keeps_and_then_at) (simp_all add: keeps_atomic keeps_ret keeps_set_tags)
  show "preserves keeps (vpn_conn_ensure_gone a)"
    unfolding vpn_conn_ensure_gone_def by (rule keeps_if) (simp_all add: keeps_atomic keeps_ret)
  have attach: "preserves keeps
      (\<lambda>m1. if truthy (vpc m1) \<and> truthy (self_id m1) then attach_vpn_gw a m1 else ret () m1)"
    by (rule keeps_if) (simp_all add: keeps_atomic keeps_ret)
  show "preserves keeps (vpn_gw_ensure_ok a)"
    unfolding vpn_gw_ensure_ok_def preserves_def
    by (intro allI keeps_and_then_at keeps_and_then)
       (simp_all add: keeps_atomic keeps_ret keeps_set_tags attach)
  have del: "preserves keeps (\<lambda>m1. if vpn_gw m1 \<noteq> None then delete_vpn_gw a m1 else ret () m1)"
    by (rule keeps_if) (rule keeps_atomic keeps_ret)+
  show "preserves keeps (vpn_gw_ensure_gone a)"
    unfolding vpn_gw_ensure_gone_def preserves_def
    by (intro allI keeps_and_then_at del) (simp_all add: keeps_atomic keeps_ret)
qed

lemma preservesD: "preserves R f \<Longrightarrow> R s (snd (f s))"
  by (simp add: preserves_def)

lemma keeps_cgw_step: "preserves keeps (cgw_step a x)"
  unfolding preserves_def
proof
  fix m
  show "keeps m (snd (cgw_step a x m))"
    by (cases x)
       (simp_all add: snd_forget keeps_ensure[THEN preservesD] keeps_get_info[THEN preservesD]
          keeps_and_then_at keeps_get_customer_gateway keeps_store)
qed

lemma keeps_vpn_conn_step: "preserves keeps (vpn_conn_step a x)"
  unfolding preserves_def
proof
  fix m
  show "keeps m (snd (vpn_conn_step a x m))"
    by (cases x)
       (simp_all add: snd_forget keeps_ensure[THEN preservesD] keeps_get_info[THEN preservesD]
          keeps_and_then_at keeps_get_vpn_connection keeps_store)
qed

lemma keeps_vpn_gw_step: "preserves keeps (vpn_gw_step a x)"
  unfolding preserves_def
proof
  fix m
  show "keeps m (snd (vpn_gw_step a x m))"
  proof (cases x)
    case (Op y)
    then show ?thesis
      by (cases y)
         (simp_all add: snd_forget keeps_ensure[THEN preservesD] keeps_get_info[THEN preservesD]
            keeps_and_then_at keeps_get_vpn_gateway keeps_store)
  qed (simp_all add: keeps_route_propagation[THEN preservesD])
qed

lemma run_successively:
  "(\<And>x. preserves R (step x)) \<Longrightarrow> successively R (run step xs s)"
proof (induction xs arbitrary: s)
  case Nil
  show ?case by simp
next
  case (Cons x xs)
  obtain r s' where st: "step x s = (r, s')" by (cases "step x s")
  have R: "R s s'" using Cons.prems[of x] st by (auto simp: preserves_def dest: spec[of _ s])
  have hd: "\<exists>rest. run step xs s' = s' # rest" by (cases xs) (auto split: prod.splits sum.splits)
  show ?case using Cons.IH[OF Cons.prems, of s'] R hd st by (cases r) auto
qed

lemma run_sorted:
  "(\<And>x. preserves keeps (step x)) \<Longrightarrow> sorted_wrt keeps (run step xs s)"
  using run_successively[of keeps step xs s] keeps_trans
  by (subst successively_conv_sorted_wrt[symmetric]) (auto simp: transp_def)

lemma run_hd: "run step xs s ! 0 = s"
  by (cases xs) (auto split: prod.splits sum.splits)

lemma run_invariant:
  assumes "\<And>x. preserves keeps (step x)" "status_ok (status s)"
  shows "(\<forall>m \<in> set (run step xs s). status_ok (status m)) \<and>
         (\<forall>i j. i \<le> j \<and> j < length (run step xs s) \<and> changed (run step xs s ! i)
                \<longrightarrow> changed (run step xs s ! j))"
proof -
  let ?ms = "run step xs s"
  have srt: "sorted_wrt keeps ?ms" by (rule run_sorted) (rule assms(1))
  have rel: "keeps (?ms ! i) (?ms ! j)" if "i \<le> j" "j < length ?ms" for i j
  proof (cases "i = j")
    case True
    then show ?thesis by (simp add: keeps_refl)
  next
    case False
    then show ?thesis using that srt by (simp add: sorted_wrt_iff_nth_less)
  qed
  have "status_ok (status m)" if mem: "m \<in> set ?ms" for m
  proof -
    obtain j where j: "j < length ?ms" "?ms ! j = m" using mem by (auto simp: in_set_conv_nth)
    from rel[of 0 j] j assms(2) show ?thesis by (simp add: run_hd keeps_def)
  qed
  moreover have "changed (?ms ! j)" if "i \<le> j" "j < length ?ms" "changed (?ms ! i)" for i j
    using rel[of i j] that by (simp add: keeps_def)
  ultimately show ?thesis by blast
qed


lemma search_by_id_Some: "search_by_id i xs = Some g \<Longrightarrow> i = Some (obj_id g)"
  by (induction xs) (auto split: if_splits)

lemma lookup_result_cgw:
  assumes "get_customer_gateway a m = (r, m')"
  shows "changed m' = changed m \<and> tags m' = tags m \<and> ip_address m' = ip_address m \<and>
         cgw m' = cgw m \<and>
         (\<exists>cs. calls m' = calls m @ cs \<and> (\<forall>c\<in>set cs. \<not> mutating c)) \<and>
         (case r of Inr (Some g) \<Rightarrow> self_id m' = Some (obj_id g) \<and> status m' = ''ok''
          | _ \<Rightarrow> self_id m' = self_id m \<and> status m' = status m)"
  using assms
  by (auto simp: get_customer_gateway_def and_then_def remote_def ret_def throw_def
        split: sum.splits option.splits prod.splits if_splits
        dest!: search_by_tags_result dest: search_by_id_Some)

lemma lookup_result_vpn_gw:
  assumes "get_vpn_gateway a m = (r, m')"
  shows "changed m' = changed m \<and> tags m' = tags m \<and> vpc m' = vpc m \<and>
         route_table_ids m' = route_table_ids m \<and> vpn_gw m' = vpn_gw m \<and>
         (\<exists>cs. calls m' = calls m @ cs \<and> (\<forall>c\<in>set cs. \<not> mutating c)) \<and>
         (case r of Inr (Some g) \<Rightarrow> self_id m' = Some (obj_id g) \<and> status m' = ''ok''
          | _ \<Rightarrow> self_id m' = self_id m \<and> status m' = status m)"
  using assms
  by (auto simp: get_vpn_gateway_def and_then_def remote_def ret_def throw_def
        split: sum.splits option.splits prod.splits if_splits
        dest!: search_by_tags_result dest: search_by_id_Some)

lemma lookup_result_vpn_conn:
  assumes "get_vpn_connection a m = (r, m')"
  shows "changed m' = changed m \<and> tags m' = tags m \<and> vpn_conn m' = vpn_conn m \<and>
         (\<exists>cs. calls m' = calls m @ cs \<and> (\<forall>c\<in>set cs. \<not> mutating c)) \<and>
         (case r of Inr (Some g) \<Rightarrow> self_id m' = Some (obj_id g) \<and> status m' = ''ok''
          | _ \<Rightarrow> self_id m' = self_id m \<and> status m' = status m)"
  using assms
  by (auto simp: get_vpn_connection_def and_then_def remote_def ret_def throw_def
        split: sum.splits option.splits prod.splits if_splits
        dest!: search_by_tags_result dest: search_by_id_Some)

lemma cgw_init_result:
  assumes "CustomerGatewayManager a args = (r, m)"
  shows "\<not> changed m \<and> status_ok (status m) \<and> tags m = tags args \<and>
         ip_address m = ip_address args \<and> filter mutating (calls m) = [] \<and>
         (\<forall>g. cgw m = Some g \<longrightarrow> self_id m = Some (obj_id g) \<and> status m = ''ok'') \<and>
         (cgw m = None \<longrightarrow> self_id m = self_id args \<and> status m = ''gone'')"
proof -
  let ?m0 = "args\<lparr>changed := False, status := ''gone'', calls := [], cgw := None\<rparr>"
  obtain r_c m_c where l: "get_customer_gateway a ?m0 = (r_c, m_c)"
    by (cases "get_customer_gateway a ?m0")
  note lookup_result_cgw[OF l]
  then show ?thesis using assms l
    by (auto simp: CustomerGatewayManager_def get_aws_connection_def and_then_def ret_def
          throw_def status_ok_def filter_empty_conv
          split: sum.splits exn.splits option.splits)
qed

lemma vpn_gw_init_result:
  assumes "VPNGatewayManager a args = (r, m)"
  shows "\<not> changed m \<and> status_ok (status m) \<and> tags m = tags args \<and>
         vpc m = vpc args \<and> route_table_ids m = route_table_ids args \<and>
         filter mutating (calls m) = [] \<and>
         (\<forall>g. vpn_gw m = Some g \<longrightarrow> self_id m = Some (obj_id g) \<and> status m = ''ok'') \<and>
         (vpn_gw m = None \<longrightarrow> self_id m = self_id args \<and> status m = ''gone'')"
proof -
  let ?m0 = "args\<lparr>changed := False, status := ''gone'', calls := [],
                   attach_status := ''detached'', vpn_gw := None\<rparr>"
  obtain r_c m_c where l: "get_vpn_gateway a ?m0 = (r_c, m_c)"
    by (cases "get_vpn_gateway a ?m0")
  note lookup_result_vpn_gw[OF l]
  then show ?thesis using assms l
    by (auto simp: VPNGatewayManager_def get_aws_connection_def and_then_def ret_def
          throw_def status_ok_def filter_empty_conv
          split: sum.splits exn.splits option.splits)
qed

lemma vpn_conn_init_result:
  assumes "VPNConnectionManager a args = (r, m)"
  shows "\<not> changed m \<and> status_ok (status m) \<and> tags m = tags args \<and>
         filter mutating (calls m) = [] \<and>
         (\<forall>g. vpn_conn m = Some g \<longrightarrow> self_id m = Some (obj_id g) \<and> status m = ''ok'') \<and>
         (vpn_conn m = None \<longrightarrow> self_id m = self_id args \<and> status m = ''gone'')"
proof -
  let ?m0 = "args\<lparr>changed := False, status := ''gone'', calls := [], vpn_conn := None\<rparr>"
  obtain r_c m_c where l: "get_vpn_connection a ?m0 = (r_c, m_c)"
    by (cases "get_vpn_connection a ?m0")
  note lookup_result_vpn_conn[OF l]
  then show ?thesis using assms l
    by (auto simp: VPNConnectionManager_def get_aws_connection_def and_then_def ret_def
          throw_def status_ok_def filter_empty_conv
          split: sum.splits exn.splits option.splits)
qed

section \<open>The status and the changed flag\<close>

text \<open>
  Claim C9. For a manager of any of the three classes, however its constructor ended:
  \<open>changed\<close> is false after construction; along every sequence of the operations lookup,
  \<^verbatim>\<open>ensure_ok\<close>, \<^verbatim>\<open>ensure_gone\<close>, \<^verbatim>\<open>get_info\<close> (and, for the VPN gateway, the two route
  operations) run on it, also one that an exception ends, the status is at every moment
  one of \<open>gone\<close>, \<open>ok\<close>, \<open>created\<close>, \<open>deleted\<close>, and once \<open>changed\<close> is true at some moment it
  is true at every later moment.
\<close>

theorem status_legal_changed_monotone:
  "(CustomerGatewayManager a args_c = (r_c, m_c) \<longrightarrow>
      \<not> changed m_c \<and>
      (\<forall>m \<in> set (run (cgw_step a) ops_c m_c). status_ok (status m)) \<and>
      (\<forall>i j. i \<le> j \<and> j < length (run (cgw_step a) ops_c m_c) \<and>
              changed (run (cgw_step a) ops_c m_c ! i) \<longrightarrow> changed (run (cgw_step a) ops_c m_c ! j))) \<and>
   (VPNGatewayManager a args_g = (r_g, m_g) \<longrightarrow>
      \<not> changed m_g \<and>
      (\<forall>m \<in> set (run (vpn_gw_step a) ops_g m_g). status_ok (status m)) \<and>
      (\<forall>i j. i \<le> j \<and> j < length (run (vpn_gw_step a) ops_g m_g) \<and>
              changed (run (vpn_gw_step a) ops_g m_g ! i) \<longrightarrow> changed (run (vpn_gw_step a) ops_g m_g ! j))) \<and>
   (VPNConnectionManager a args_v = (r_v, m_v) \<longrightarrow>
      \<not> changed m_v \<and>
      (\<forall>m \<in> set (run (vpn_conn_step a) ops_v m_v). status_ok (status m)) \<and>
      (\<forall>i j. i \<le> j \<and> j < length (run (vpn_conn_step a) ops_v m_v) \<and>
              changed (run (vpn_conn_step a) ops_v m_v ! i) \<longrightarrow>
              changed (run (vpn_conn_step a) ops_v m_v ! j)))"
proof (intro conjI impI)
  assume h: "CustomerGatewayManager a args_c = (r_c, m_c)"
  show "\<not> changed m_c" using cgw_init_result[OF h] by simp
  have ok: "status_ok (status m_c)" using cgw_init_result[OF h] by simp
  show "\<forall>m \<in> set (run (cgw_step a) ops_c m_c). status_ok (status m)"
    using run_invariant[of "cgw_step a" m_c ops_c, OF keeps_cgw_step ok] by blast
  show "\<forall>i j. i \<le> j \<and> j < length (run (cgw_step a) ops_c m_c) \<and>
              changed (run (cgw_step a) ops_c m_c ! i) \<longrightarrow> changed (run (cgw_step a) ops_c m_c ! j)"
    using run_invariant[of "cgw_step a" m_c ops_c, OF keeps_cgw_step ok] by blast
next
  assume h: "VPNGatewayManager a args_g = (r_g, m_g)"
  show "\<not> changed m_g" using vpn_gw_init_result[OF h] by simp
  have ok: "status_ok (status m_g)" using vpn_gw_init_result[OF h] by simp
  show "\<forall>m \<in> set (run (vpn_gw_step a) ops_g m_g). status_ok (status m)"
    using run_invariant[of "vpn_gw_step a" m_g ops_g, OF keeps_vpn_gw_step ok] by blast
  show "\<forall>i j. i \<le> j \<and> j < length (run (vpn_gw_step a) ops_g m_g) \<and>
              changed (run (vpn_gw_step a) ops_g m_g ! i) \<longrightarrow> changed (run (vpn_gw_step a) ops_g m_g ! j)"
    using run_invariant[of "vpn_gw_step a" m_g ops_g, OF keeps_vpn_gw_step ok] by blast
next
  assume h: "VPNConnectionManager a args_v = (r_v, m_v)"
  show "\<not> changed m_v" using vpn_conn_init_result[OF h] by simp
  have ok: "status_ok (status m_v)" using vpn_conn_init_result[OF h] by simp
  show "\<forall>m \<in> set (run (vpn_conn_step a) ops_v m_v). status_ok (status m)"
    using run_invariant[of "vpn_conn_step a" m_v ops_v, OF keeps_vpn_conn_step ok] by blast
  show "\<forall>i j. i \<le> j \<and> j < length (run (vpn_conn_step a) ops_v m_v) \<and>
              changed (run (vpn_conn_step a) ops_v m_v ! i) \<longrightarrow>
              changed (run (vpn_conn_step a) ops_v m_v ! j)"
    using run_invariant[of "vpn_conn_step a" m_v ops_v, OF keeps_vpn_conn_step ok] by blast
qed

theorem status_legal_changed_monotone_witness:
  "CustomerGatewayManager empty_aws cgw_args =
     (Inr (), cgw_args\<lparr>calls := [GetAllCustomerGateways NoArgs]\<rparr>) \<and>
   VPNGatewayManager empty_aws vpn_gw_args =
     (Inr (), vpn_gw_args\<lparr>calls := [GetAllVpnGateways NoArgs]\<rparr>) \<and>
   VPNConnectionManager empty_aws vpn_conn_args =
     (Inr (), vpn_conn_args\<lparr>calls := [GetAllVpnConnections NoArgs]\<rparr>) \<and>
   map (\<lambda>m. (changed m, status m))
     (run (cgw_step empty_aws) [EnsureOk, EnsureGone]
        (cgw_args\<lparr>calls := [GetAllCustomerGateways NoArgs]\<rparr>))
     = [(False, ''gone''), (True, ''created''), (True, ''deleted'')] \<and>
   list_all (\<lambda>m. status_ok (status m))
     (run (cgw_step empty_aws) [EnsureOk, EnsureGone]
        (cgw_args\<lparr>calls := [GetAllCustomerGateways NoArgs]\<rparr>)) \<and>
   list_all (\<lambda>m. status_ok (status m))
     (run (vpn_gw_step empty_aws) [Op EnsureOk, EnableRoutes, Op EnsureGone]
        (vpn_gw_args\<lparr>calls := [GetAllVpnGateways NoArgs]\<rparr>)) \<and>
   list_all (\<lambda>m. status_ok (status m))
     (run (vpn_conn_step empty_aws) [EnsureOk, EnsureGone]
        (vpn_conn_args\<lparr>calls := [GetAllVpnConnections NoArgs]\<rparr>))"
proof -
  have c: "CustomerGatewayManager empty_aws cgw_args =
             (Inr (), cgw_args\<lparr>calls := [GetAllCustomerGateways NoArgs]\<rparr>)"
    by (simp add: eval_defs example_defs)
  have g: "VPNGatewayManager empty_aws vpn_gw_args =
             (Inr (), vpn_gw_args\<lparr>calls := [GetAllVpnGateways NoArgs]\<rparr>)"
    by (simp add: eval_defs example_defs)
  have v: "VPNConnectionManager empty_aws vpn_conn_args =
             (Inr (), vpn_conn_args\<lparr>calls := [GetAllVpnConnections NoArgs]\<rparr>)"
    by (simp add: eval_defs example_defs)
  have t: "map (\<lambda>m. (changed m, status m))
     (run (cgw_step empty_aws) [EnsureOk, EnsureGone]
        (cgw_args\<lparr>calls := [GetAllCustomerGateways NoArgs]\<rparr>))
     = [(False, ''gone''), (True, ''created''), (True, ''deleted'')]"
    by (simp add: eval_defs example_defs)
  note th = status_legal_changed_monotone[where a = empty_aws
      and args_c = cgw_args and r_c = "Inr ()"
      and m_c = "cgw_args\<lparr>calls := [GetAllCustomerGateways NoArgs]\<rparr>"
      and ops_c = "[EnsureOk, EnsureGone]"
      and args_g = vpn_gw_args and r_g = "Inr ()"
      and m_g = "vpn_gw_args\<lparr>calls := [GetAllVpnGateways NoArgs]\<rparr>"
      and ops_g = "[Op EnsureOk, EnableRoutes, Op EnsureGone]"
      and args_v = vpn_conn_args and r_v = "Inr ()"
      and m_v = "vpn_conn_args\<lparr>calls := [GetAllVpnConnections NoArgs]\<rparr>"
      and ops_v = "[EnsureOk, EnsureGone]"]
  from th c have 1: "list_all (\<lambda>m. status_ok (status m))
     (run (cgw_step empty_aws) [EnsureOk, EnsureGone]
        (cgw_args\<lparr>calls := [GetAllCustomerGateways NoArgs]\<rparr>))"
    unfolding list_all_iff by blast
  from th g have 2: "list_all (\<lambda>m. status_ok (status m))
     (run (vpn_gw_step empty_aws) [Op EnsureOk, EnableRoutes, Op EnsureGone]
        (vpn_gw_args\<lparr>calls := [GetAllVpnGateways NoArgs]\<rparr>))"
    unfolding list_all_iff by blast
  from th v have 3: "list_all (\<lambda>m. status_ok (status m))
     (run (vpn_conn_step empty_aws) [EnsureOk, EnsureGone]
        (vpn_conn_args\<lparr>calls := [GetAllVpnConnections NoArgs]\<rparr>))"
    unfolding list_all_iff by blast
  from c g v t 1 2 3 show ?thesis by (intro conjI)
qed

section \<open>Ensure-present\<close>

lemma set_tags_no_create: "filter is_create (issued (set_tags a) m) = []"
  by (simp add: set_tags_issued split: sum.splits)

lemma set_tags_first:
  "\<exists>rest. issued (set_tags a) m = GetAllTags (resource_filter (self_id m)) # rest"
  by (simp add: set_tags_issued split: sum.splits)

lemma set_tags_calls: "calls (snd (set_tags a m)) = calls m @ issued (set_tags a) m"
  by (subst set_tags_frame) simp

lemma set_tags_fields:
  "self_id (snd (set_tags a m)) = self_id m" "changed (snd (set_tags a m)) = changed m"
  "status (snd (set_tags a m)) = status m" "tags (snd (set_tags a m)) = tags m"
  by (subst set_tags_frame, simp)+

lemma set_tags_fields_ext:
  "cgw (snd (set_tags a mc)) = cgw mc"
  "vpn_gw (snd (set_tags a mg)) = vpn_gw mg" "vpc (snd (set_tags a mg)) = vpc mg"
  "vpn_conn (snd (set_tags a mv)) = vpn_conn mv"
  by (subst set_tags_frame, simp)+

text \<open>The creation calls of \<^verbatim>\<open>ensure_ok\<close> when the lookup found nothing.\<close>

lemma cgw_ensure_ok_creates:
  assumes "cgw m = None"
  shows "filter is_create (issued (cgw_ensure_ok a) m) =
           [CreateCustomerGateway (self_type m) (ip_address m) (bgp_asn m)]"
proof (cases "create_customer_gateway a (self_type m) (ip_address m) (bgp_asn m)")
  case (Inl e)
  then show ?thesis using assms
    by (simp add: issued_def cgw_ensure_ok_def create_cgw_def and_then_def remote_def)
next
  case (Inr r)
  let ?c = "CreateCustomerGateway (self_type m) (ip_address m) (bgp_asn m)"
  obtain m' where m': "cgw_ensure_ok a m = set_tags a m'" "calls m' = calls m @ [?c]"
    using assms Inr
    by (cases r) (auto simp: cgw_ensure_ok_def create_cgw_def and_then_def remote_def ret_def)
  have "issued (cgw_ensure_ok a) m = ?c # issued (set_tags a) m'"
    by (rule issued_append) (simp add: m' set_tags_calls)
  then show ?thesis by (simp add: set_tags_no_create)
qed

lemma cgw_ensure_ok_created:
  assumes "cgw m = None"
    and "create_customer_gateway a (self_type m) (ip_address m) (bgp_asn m) = Inr (Some g)"
  shows "self_id (snd (cgw_ensure_ok a m)) = Some (obj_id g) \<and>
         changed (snd (cgw_ensure_ok a m)) \<and> status (snd (cgw_ensure_ok a m)) = ''created'' \<and>
         cgw (snd (cgw_ensure_ok a m)) = Some g"
  using assms
  by (simp add: cgw_ensure_ok_def create_cgw_def and_then_def remote_def ret_def
        set_tags_fields set_tags_fields_ext)

lemma vpn_conn_ensure_ok_creates:
  assumes "vpn_conn m = None"
  shows "filter is_create (issued (vpn_conn_ensure_ok a) m) =
           [CreateVpnConnection (self_type m) (customer_gateway_id m) (vpn_gateway_id m)
              (static_routes_only m)]"
proof (cases "create_vpn_connection a (self_type m) (customer_gateway_id m) (vpn_gateway_id m)
                (static_routes_only m)")
  case (Inl e)
  then show ?thesis using assms
    by (simp add: issued_def vpn_conn_ensure_ok_def create_vpn_conn_def and_then_def remote_def)
next
  case (Inr r)
  let ?c = "CreateVpnConnection (self_type m) (customer_gateway_id m) (vpn_gateway_id m)
              (static_routes_only m)"
  obtain m' where m': "vpn_conn_ensure_ok a m = set_tags a m'" "calls m' = calls m @ [?c]"
    using assms Inr
    by (cases r)
       (auto simp: vpn_conn_ensure_ok_def create_vpn_conn_def and_then_def remote_def ret_def)
  have "issued (vpn_conn_ensure_ok a) m = ?c # issued (set_tags a) m'"
    by (rule issued_append) (simp add: m' set_tags_calls)
  then show ?thesis by (simp add: set_tags_no_create)
qed

lemma vpn_conn_ensure_ok_created:
  assumes "vpn_conn m = None"
    and "create_vpn_connection a (self_type m) (customer_gateway_id m) (vpn_gateway_id m)
           (static_routes_only m) = Inr (Some g)"
  shows "self_id (snd (vpn_conn_ensure_ok a m)) = Some (obj_id g) \<and>
         changed (snd (vpn_conn_ensure_ok a m)) \<and>
         status (snd (vpn_conn_ensure_ok a m)) = ''created'' \<and>
         vpn_conn (snd (vpn_conn_ensure_ok a m)) = Some g"
  using assms
  by (simp add: vpn_conn_ensure_ok_def create_vpn_conn_def and_then_def remote_def ret_def
        set_tags_fields set_tags_fields_ext)

lemma tags_then_attach_result:
  "\<exists>cs. calls (snd (tags_then_attach a m)) = calls m @ issued (set_tags a) m @ cs \<and>
        (cs = [] \<or> cs = [AttachVpnGateway (self_id m) (vpc m)]) \<and>
        self_id (snd (tags_then_attach a m)) = self_id m \<and>
        status (snd (tags_then_attach a m)) = status m \<and>
        vpn_gw (snd (tags_then_attach a m)) = vpn_gw m \<and>
        (changed m \<longrightarrow> changed (snd (tags_then_attach a m)))"
proof -
  obtain r m1 where st: "set_tags a m = (r, m1)" by (cases "set_tags a m")
  have m1: "m1 = m\<lparr>calls := calls m @ issued (set_tags a) m\<rparr>"
    using set_tags_frame[of a m] st by simp
  show ?thesis
  proof (cases r)
    case (Inl e)
    show ?thesis
      by (rule exI[of _ "[]"]) (simp add: tags_then_attach_def and_then_def st Inl m1)
  next
    case (Inr u)
    show ?thesis
    proof (cases "truthy (vpc m) \<and> truthy (self_id m)")
      case False
      show ?thesis
        by (rule exI[of _ "[]"])
           (use False in \<open>auto simp: tags_then_attach_def and_then_def st Inr m1 ret_def\<close>)
    next
      case True
      show ?thesis
        by (rule exI[of _ "[AttachVpnGateway (self_id m) (vpc m)]"])
           (use True in \<open>auto simp: tags_then_attach_def and_then_def st Inr m1 ret_def
              attach_vpn_gw_def remote_def split: sum.splits\<close>)
    qed
  qed
qed


lemma vpn_gw_ensure_ok_unfold:
  "vpn_gw_ensure_ok a m =
     and_then (if vpn_gw m = None then create_vpn_gw a else ret ()) (\<lambda>u. tags_then_attach a) m"
  by (simp add: vpn_gw_ensure_ok_def tags_then_attach_def)

lemma tags_then_attach_no_create:
  "calls m' = calls m @ cs \<Longrightarrow>
   filter is_create (drop (length (calls m)) (calls (snd (tags_then_attach a m')))) =
   filter is_create cs"
  using tags_then_attach_result[of a m'] by (auto simp: set_tags_no_create)

lemma vpn_gw_ensure_ok_creates:
  assumes "vpn_gw m = None"
  shows "filter is_create (issued (vpn_gw_ensure_ok a) m) =
           [CreateVpnGateway (self_type m) (availability_zone m)]"
proof (cases "create_vpn_gateway a (self_type m) (availability_zone m)")
  case (Inl e)
  then show ?thesis using assms
    by (simp add: issued_def vpn_gw_ensure_ok_unfold create_vpn_gw_def and_then_def remote_def)
next
  case (Inr r)
  let ?c = "CreateVpnGateway (self_type m) (availability_zone m)"
  obtain m' where m': "vpn_gw_ensure_ok a m = tags_then_attach a m'" "calls m' = calls m @ [?c]"
    using assms Inr
    by (cases r)
       (auto simp: vpn_gw_ensure_ok_unfold create_vpn_gw_def and_then_def remote_def ret_def)
  show ?thesis
    using tags_then_attach_no_create[OF m'(2), of a] by (simp add: issued_def m'(1))
qed

lemma vpn_gw_ensure_ok_created:
  assumes "vpn_gw m = None"
    and "create_vpn_gateway a (self_type m) (availability_zone m) = Inr (Some g)"
  shows "self_id (snd (vpn_gw_ensure_ok a m)) = Some (obj_id g) \<and>
         changed (snd (vpn_gw_ensure_ok a m)) \<and>
         status (snd (vpn_gw_ensure_ok a m)) = ''created'' \<and>
         vpn_gw (snd (vpn_gw_ensure_ok a m)) = Some g"
proof -
  let ?m' = "m\<lparr>calls := calls m @ [CreateVpnGateway (self_type m) (availability_zone m)],
               vpn_gw := Some g, changed := True, status := ''created'',
               self_id := Some (obj_id g)\<rparr>"
  have "vpn_gw_ensure_ok a m = tags_then_attach a ?m'"
    using assms
    by (simp add: vpn_gw_ensure_ok_unfold create_vpn_gw_def and_then_def remote_def ret_def)
  then show ?thesis using tags_then_attach_result[of a ?m'] by auto
qed

text \<open>
  Claim C1. For each of the three resource kinds: on a manager whose lookup found nothing,
  \<^verbatim>\<open>ensure_ok\<close> issues exactly one create call, whatever the remote answers afterwards;
  when that call returns the new resource, the manager holds the resource's id,
  \<open>changed = True\<close> and \<open>status = created\<close> when \<^verbatim>\<open>ensure_ok\<close> ends (normally or by an
  exception of a later call).
\<close>

theorem ensure_ok_creates_when_nothing_found:
  "(cgw m_c = None \<longrightarrow>
      filter is_create (issued (cgw_ensure_ok a) m_c) =
        [CreateCustomerGateway (self_type m_c) (ip_address m_c) (bgp_asn m_c)] \<and>
      (create_customer_gateway a (self_type m_c) (ip_address m_c) (bgp_asn m_c) = Inr (Some g_c) \<longrightarrow>
         self_id (snd (cgw_ensure_ok a m_c)) = Some (obj_id g_c) \<and>
         changed (snd (cgw_ensure_ok a m_c)) \<and>
         status (snd (cgw_ensure_ok a m_c)) = ''created'')) \<and>
   (vpn_gw m_g = None \<longrightarrow>
      filter is_create (issued (vpn_gw_ensure_ok a) m_g) =
        [CreateVpnGateway (self_type m_g) (availability_zone m_g)] \<and>
      (create_vpn_gateway a (self_type m_g) (availability_zone m_g) = Inr (Some g_g) \<longrightarrow>
         self_id (snd (vpn_gw_ensure_ok a m_g)) = Some (obj_id g_g) \<and>
         changed (snd (vpn_gw_ensure_ok a m_g)) \<and>
         status (snd (vpn_gw_ensure_ok a m_g)) = ''created'')) \<and>
   (vpn_conn m_v = None \<longrightarrow>
      filter is_create (issued (vpn_conn_ensure_ok a) m_v) =
        [CreateVpnConnection (self_type m_v) (customer_gateway_id m_v) (vpn_gateway_id m_v)
           (static_routes_only m_v)] \<and>
      (create_vpn_connection a (self_type m_v) (customer_gateway_id m_v) (vpn_gateway_id m_v)
           (static_routes_only m_v) = Inr (Some g_v) \<longrightarrow>
         self_id (snd (vpn_conn_ensure_ok a m_v)) = Some (obj_id g_v) \<and>
         changed (snd (vpn_conn_ensure_ok a m_v)) \<and>
         status (snd (vpn_conn_ensure_ok a m_v)) = ''created''))"
  using cgw_ensure_ok_creates[of m_c a] cgw_ensure_ok_created[of m_c a g_c]
    vpn_gw_ensure_ok_creates[of m_g a] vpn_gw_ensure_ok_created[of m_g a g_g]
    vpn_conn_ensure_ok_creates[of m_v a] vpn_conn_ensure_ok_created[of m_v a g_v]
  by blast

theorem ensure_ok_creates_when_nothing_found_witness:
  "cgw cgw_args = None \<and> vpn_gw vpn_gw_args = None \<and> vpn_conn vpn_conn_args = None \<and>
   create_customer_gateway empty_aws (self_type cgw_args) (ip_address cgw_args) (bgp_asn cgw_args)
     = Inr (Some example_cgw) \<and>
   create_vpn_gateway empty_aws (self_type vpn_gw_args) (availability_zone vpn_gw_args)
     = Inr (Some example_vpn_gw) \<and>
   create_vpn_connection empty_aws (self_type vpn_conn_args) (customer_gateway_id vpn_conn_args)
     (vpn_gateway_id vpn_conn_args) (static_routes_only vpn_conn_args) = Inr (Some example_vpn_conn) \<and>
   filter is_create (issued (cgw_ensure_ok empty_aws) cgw_args) =
     [CreateCustomerGateway (Some ''ipsec.1'') (Some ''1.1.1.1'') (Some 65000)] \<and>
   self_id (snd (cgw_ensure_ok empty_aws cgw_args)) = Some ''cgw-ec60bff4'' \<and>
   changed (snd (cgw_ensure_ok empty_aws cgw_args)) \<and>
   status (snd (cgw_ensure_ok empty_aws cgw_args)) = ''created'' \<and>
   self_id (snd (vpn_gw_ensure_ok empty_aws vpn_gw_args)) = Some ''vgw-e961bef7'' \<and>
   changed (snd (vpn_gw_ensure_ok empty_aws vpn_gw_args)) \<and>
   status (snd (vpn_gw_ensure_ok empty_aws vpn_gw_args)) = ''created'' \<and>
   self_id (snd (vpn_conn_ensure_ok empty_aws vpn_conn_args)) = Some ''vpn-b0fbe4a2'' \<and>
   changed (snd (vpn_conn_ensure_ok empty_aws vpn_conn_args)) \<and>
   status (snd (vpn_conn_ensure_ok empty_aws vpn_conn_args)) = ''created''"
proof -
  have h: "cgw cgw_args = None" "vpn_gw vpn_gw_args = None" "vpn_conn vpn_conn_args = None"
    "create_customer_gateway empty_aws (self_type cgw_args) (ip_address cgw_args) (bgp_asn cgw_args)
       = Inr (Some example_cgw)"
    "create_vpn_gateway empty_aws (self_type vpn_gw_args) (availability_zone vpn_gw_args)
       = Inr (Some example_vpn_gw)"
    "create_vpn_connection empty_aws (self_type vpn_conn_args) (customer_gateway_id vpn_conn_args)
       (vpn_gateway_id vpn_conn_args) (static_routes_only vpn_conn_args) = Inr (Some example_vpn_conn)"
    by (simp_all add: example_defs)
  have i: "obj_id example_cgw = ''cgw-ec60bff4''" "obj_id example_vpn_gw = ''vgw-e961bef7''"
    "obj_id example_vpn_conn = ''vpn-b0fbe4a2''"
    "self_type cgw_args = Some ''ipsec.1''" "ip_address cgw_args = Some ''1.1.1.1''"
    "bgp_asn cgw_args = Some 65000"
    by (simp_all add: example_defs)
  from ensure_ok_creates_when_nothing_found[where a = empty_aws and m_c = cgw_args
      and g_c = example_cgw and m_g = vpn_gw_args and g_g = example_vpn_gw
      and m_v = vpn_conn_args and g_v = example_vpn_conn] h
  show ?thesis by (simp add: i)
qed

lemma vpn_gw_ensure_ok_found:
  "vpn_gw m = Some g \<Longrightarrow> vpn_gw_ensure_ok a m = tags_then_attach a m"
  by (simp add: vpn_gw_ensure_ok_unfold and_then_def ret_def)

lemma tags_then_attach_issued:
  "filter is_create (issued (tags_then_attach a) m) = [] \<and>
   (\<exists>rest. issued (tags_then_attach a) m = GetAllTags (resource_filter (self_id m)) # rest)"
proof -
  obtain cs where cs: "calls (snd (tags_then_attach a m)) = calls m @ issued (set_tags a) m @ cs"
    "cs = [] \<or> cs = [AttachVpnGateway (self_id m) (vpc m)]"
    using tags_then_attach_result[of a m] by blast
  have i: "issued (tags_then_attach a) m = issued (set_tags a) m @ cs"
    by (rule issued_append) (simp add: cs)
  obtain rest where rest: "issued (set_tags a) m = GetAllTags (resource_filter (self_id m)) # rest"
    using set_tags_first[of a m] by blast
  have "filter is_create (issued (tags_then_attach a) m) = []"
    using cs(2) by (auto simp: i set_tags_no_create)
  moreover have "issued (tags_then_attach a) m = GetAllTags (resource_filter (self_id m)) # (rest @ cs)"
    by (simp add: i rest)
  ultimately show ?thesis by blast
qed

lemma set_tags_mutating:
  assumes "is_dict (tags m)" "get_all_tags a (resource_filter (self_id m)) = Inr remote_tags"
  shows "filter mutating (issued (set_tags a) m) =
           (if set (tags m) \<subseteq> set (dict_of remote_tags) then []
            else [CreateTags (self_id m) (dictadd (tags m) (dict_of remote_tags))])"
  using assms by (simp add: set_tags_issued dictadd_empty split: sum.splits)

lemma set_tags_returns:
  assumes "is_dict (tags m)" "get_all_tags a (resource_filter (self_id m)) = Inr remote_tags"
  shows "(fst (set_tags a m) = Inr ()) =
           (set (tags m) \<subseteq> set (dict_of remote_tags) \<or>
            (\<exists>t. create_tags a (self_id m) (dictadd (tags m) (dict_of remote_tags)) = Inr t))"
  using assms by (auto simp: set_tags_cases dictadd_empty split: sum.splits)

lemma tags_then_attach_log:
  "issued (tags_then_attach a) m =
     issued (set_tags a) m @
     (if fst (set_tags a m) = Inr () \<and> truthy (vpc m) \<and> truthy (self_id m)
      then [AttachVpnGateway (self_id m) (vpc m)] else [])"
proof -
  obtain r m1 where st: "set_tags a m = (r, m1)" by (cases "set_tags a m")
  have m1: "m1 = m\<lparr>calls := calls m @ issued (set_tags a) m\<rparr>"
    using set_tags_frame[of a m] st by simp
  show ?thesis
  proof (cases r)
    case (Inl e)
    show ?thesis
      by (rule issued_append) (simp add: tags_then_attach_def and_then_def st Inl m1)
  next
    case (Inr u)
    show ?thesis
      by (rule issued_append)
         (auto simp: tags_then_attach_def and_then_def st Inr m1 ret_def attach_vpn_gw_def
            remote_def split: sum.splits)
  qed
qed

lemma tags_then_attach_mutating:
  assumes "is_dict (tags m)" "get_all_tags a (resource_filter (self_id m)) = Inr remote_tags"
  shows "filter mutating (issued (tags_then_attach a) m) =
           (if set (tags m) \<subseteq> set (dict_of remote_tags) then []
            else [CreateTags (self_id m) (dictadd (tags m) (dict_of remote_tags))]) @
           (if (set (tags m) \<subseteq> set (dict_of remote_tags) \<or>
                (\<exists>t. create_tags a (self_id m) (dictadd (tags m) (dict_of remote_tags)) = Inr t)) \<and>
               truthy (vpc m) \<and> truthy (self_id m)
            then [AttachVpnGateway (self_id m) (vpc m)] else [])"
  by (simp add: tags_then_attach_log set_tags_mutating[OF assms] set_tags_returns[OF assms])

text \<open>
  Claim C2. For each of the three resource kinds: on a manager whose lookup found a
  resource, \<^verbatim>\<open>ensure_ok\<close> issues no create call and reconciles the tags of that resource.
  Its first call fetches the tags of \<^verbatim>\<open>self.id\<close>, which after construction is the id of
  the resource found. When the remote answers that query and the desired tags are a
  dictionary, the mutating calls of \<^verbatim>\<open>ensure_ok\<close> are exactly: one tag-creation call on
  \<^verbatim>\<open>self.id\<close> with the desired pairs that the remote lacks, if there is such a pair, and
  none otherwise; for the VPN gateway this is followed by the attach call when the tag
  step did not raise and both \<^verbatim>\<open>self.vpc\<close> and \<^verbatim>\<open>self.id\<close> are truthy.
\<close>

theorem ensure_ok_reconciles_found:
  "(cgw m_c = Some g_c \<longrightarrow>
      filter is_create (issued (cgw_ensure_ok a) m_c) = [] \<and>
      (\<exists>rest. issued (cgw_ensure_ok a) m_c =
                GetAllTags (Filters [(''resource-id'', self_id m_c)]) # rest) \<and>
      (is_dict (tags m_c) \<and>
       get_all_tags a (Filters [(''resource-id'', self_id m_c)]) = Inr remote_c \<longrightarrow>
         filter mutating (issued (cgw_ensure_ok a) m_c) =
           (if set (tags m_c) \<subseteq> set (dict_of remote_c) then []
            else [CreateTags (self_id m_c) (dictadd (tags m_c) (dict_of remote_c))]) \<and>
         set (dictadd (tags m_c) (dict_of remote_c)) = set (tags m_c) - set (dict_of remote_c))) \<and>
   (vpn_gw m_g = Some g_g \<longrightarrow>
      filter is_create (issued (vpn_gw_ensure_ok a) m_g) = [] \<and>
      (\<exists>rest. issued (vpn_gw_ensure_ok a) m_g =
                GetAllTags (Filters [(''resource-id'', self_id m_g)]) # rest) \<and>
      (is_dict (tags m_g) \<and>
       get_all_tags a (Filters [(''resource-id'', self_id m_g)]) = Inr remote_g \<longrightarrow>
         filter mutating (issued (vpn_gw_ensure_ok a) m_g) =
           (if set (tags m_g) \<subseteq> set (dict_of remote_g) then []
            else [CreateTags (self_id m_g) (dictadd (tags m_g) (dict_of remote_g))]) @
           (if (set (tags m_g) \<subseteq> set (dict_of remote_g) \<or>
                (\<exists>t. create_tags a (self_id m_g) (dictadd (tags m_g) (dict_of remote_g)) = Inr t)) \<and>
               truthy (vpc m_g) \<and> truthy (self_id m_g)
            then [AttachVpnGateway (self_id m_g) (vpc m_g)] else []) \<and>
         set (dictadd (tags m_g) (dict_of remote_g)) = set (tags m_g) - set (dict_of remote_g))) \<and>
   (vpn_conn m_v = Some g_v \<longrightarrow>
      filter is_create (issued (vpn_conn_ensure_ok a) m_v) = [] \<and>
      (\<exists>rest. issued (vpn_conn_ensure_ok a) m_v =
                GetAllTags (Filters [(''resource-id'', self_id m_v)]) # rest) \<and>
      (is_dict (tags m_v) \<and>
       get_all_tags a (Filters [(''resource-id'', self_id m_v)]) = Inr remote_v \<longrightarrow>
         filter mutating (issued (vpn_conn_ensure_ok a) m_v) =
           (if set (tags m_v) \<subseteq> set (dict_of remote_v) then []
            else [CreateTags (self_id m_v) (dictadd (tags m_v) (dict_of remote_v))]) \<and>
         set (dictadd (tags m_v) (dict_of remote_v)) = set (tags m_v) - set (dict_of remote_v))) \<and>
   (CustomerGatewayManager a args_c = (r_c, m_c) \<and> cgw m_c = Some g_c \<longrightarrow>
      self_id m_c = Some (obj_id g_c)) \<and>
   (VPNGatewayManager a args_g = (r_g, m_g) \<and> vpn_gw m_g = Some g_g \<longrightarrow>
      self_id m_g = Some (obj_id g_g)) \<and>
   (VPNConnectionManager a args_v = (r_v, m_v) \<and> vpn_conn m_v = Some g_v \<longrightarrow>
      self_id m_v = Some (obj_id g_v))"
proof -
  have rf: "\<And>i. Filters [(''resource-id'', i)] = resource_filter i"
    by (simp add: resource_filter_def)
  have ic: "issued (cgw_ensure_ok a) m_c = issued (set_tags a) m_c" if "cgw m_c = Some g_c"
    using that by (simp add: issued_def cgw_ensure_ok_def and_then_def ret_def)
  have iv: "issued (vpn_conn_ensure_ok a) m_v = issued (set_tags a) m_v" if "vpn_conn m_v = Some g_v"
    using that by (simp add: issued_def vpn_conn_ensure_ok_def and_then_def ret_def)
  have ig: "issued (vpn_gw_ensure_ok a) m_g = issued (tags_then_attach a) m_g"
    if "vpn_gw m_g = Some g_g"
    using vpn_gw_ensure_ok_found[OF that, of a] by (simp add: issued_def)
  have c: "filter is_create (issued (cgw_ensure_ok a) m_c) = [] \<and>
      (\<exists>rest. issued (cgw_ensure_ok a) m_c =
                GetAllTags (Filters [(''resource-id'', self_id m_c)]) # rest) \<and>
      (is_dict (tags m_c) \<and>
       get_all_tags a (Filters [(''resource-id'', self_id m_c)]) = Inr remote_c \<longrightarrow>
         filter mutating (issued (cgw_ensure_ok a) m_c) =
           (if set (tags m_c) \<subseteq> set (dict_of remote_c) then []
            else [CreateTags (self_id m_c) (dictadd (tags m_c) (dict_of remote_c))]) \<and>
         set (dictadd (tags m_c) (dict_of remote_c)) = set (tags m_c) - set (dict_of remote_c))"
    if f: "cgw m_c = Some g_c"
    using set_tags_first[of a m_c] set_tags_mutating[of m_c a remote_c]
    by (simp add: ic[OF f] rf set_tags_no_create dictadd_set)
  have v: "filter is_create (issued (vpn_conn_ensure_ok a) m_v) = [] \<and>
      (\<exists>rest. issued (vpn_conn_ensure_ok a) m_v =
                GetAllTags (Filters [(''resource-id'', self_id m_v)]) # rest) \<and>
      (is_dict (tags m_v) \<and>
       get_all_tags a (Filters [(''resource-id'', self_id m_v)]) = Inr remote_v \<longrightarrow>
         filter mutating (issued (vpn_conn_ensure_ok a) m_v) =
           (if set (tags m_v) \<subseteq> set (dict_of remote_v) then []
            else [CreateTags (self_id m_v) (dictadd (tags m_v) (dict_of remote_v))]) \<and>
         set (dictadd (tags m_v) (dict_of remote_v)) = set (tags m_v) - set (dict_of remote_v))"
    if f: "vpn_conn m_v = Some g_v"
    using set_tags_first[of a m_v] set_tags_mutating[of m_v a remote_v]
    by (simp add: iv[OF f] rf set_tags_no_create dictadd_set)
  have g: "filter is_create (issued (vpn_gw_ensure_ok a) m_g) = [] \<and>
      (\<exists>rest. issued (vpn_gw_ensure_ok a) m_g =
                GetAllTags (Filters [(''resource-id'', self_id m_g)]) # rest) \<and>
      (is_dict (tags m_g) \<and>
       get_all_tags a (Filters [(''resource-id'', self_id m_g)]) = Inr remote_g \<longrightarrow>
         filter mutating (issued (vpn_gw_ensure_ok a) m_g) =
           (if set (tags m_g) \<subseteq> set (dict_of remote_g) then []
            else [CreateTags (self_id m_g) (dictadd (tags m_g) (dict_of remote_g))]) @
           (if (set (tags m_g) \<subseteq> set (dict_of remote_g) \<or>
                (\<exists>t. create_tags a (self_id m_g) (dictadd (tags m_g) (dict_of remote_g)) = Inr t)) \<and>
               truthy (vpc m_g) \<and> truthy (self_id m_g)
            then [AttachVpnGateway (self_id m_g) (vpc m_g)] else []) \<and>
         set (dictadd (tags m_g) (dict_of remote_g)) = set (tags m_g) - set (dict_of remote_g))"
    if f: "vpn_gw m_g = Some g_g"
    using tags_then_attach_issued[of a m_g] tags_then_attach_mutating[of m_g a remote_g]
    by (simp add: ig[OF f] rf dictadd_set)
  show ?thesis
    using c v g cgw_init_result[of a args_c r_c m_c] vpn_gw_init_result[of a args_g r_g m_g]
      vpn_conn_init_result[of a args_v r_v m_v]
    by blast
qed

theorem ensure_ok_reconciles_found_witness:
  "CustomerGatewayManager stocked_aws cgw_by_id = (Inr (), cgw_found) \<and>
   VPNGatewayManager stocked_aws vpn_gw_by_id = (Inr (), vpn_gw_found) \<and>
   VPNConnectionManager stocked_aws vpn_conn_by_id = (Inr (), vpn_conn_found) \<and>
   cgw cgw_found = Some example_cgw \<and> vpn_gw vpn_gw_found = Some example_vpn_gw \<and>
   vpn_conn vpn_conn_found = Some example_vpn_conn \<and>
   is_dict (tags cgw_found) \<and> is_dict (tags vpn_gw_found) \<and> is_dict (tags vpn_conn_found) \<and>
   get_all_tags stocked_aws (Filters [(''resource-id'', self_id cgw_found)]) = Inr [] \<and>
   get_all_tags stocked_aws (Filters [(''resource-id'', self_id vpn_gw_found)]) = Inr [] \<and>
   get_all_tags stocked_aws (Filters [(''resource-id'', self_id vpn_conn_found)]) = Inr [] \<and>
   self_id cgw_found = Some (obj_id example_cgw) \<and>
   self_id vpn_gw_found = Some (obj_id example_vpn_gw) \<and>
   self_id vpn_conn_found = Some (obj_id example_vpn_conn) \<and>
   filter is_create (issued (cgw_ensure_ok stocked_aws) cgw_found) = [] \<and>
   filter is_create (issued (vpn_gw_ensure_ok stocked_aws) vpn_gw_found) = [] \<and>
   filter is_create (issued (vpn_conn_ensure_ok stocked_aws) vpn_conn_found) = [] \<and>
   filter mutating (issued (cgw_ensure_ok stocked_aws) cgw_found) =
     [CreateTags (Some ''cgw-ec60bff4'') [(''Name'', ''example_cgw_w_bgp'')]] \<and>
   filter mutating (issued (vpn_gw_ensure_ok stocked_aws) vpn_gw_found) =
     [CreateTags (Some ''vgw-e961bef7'') [(''Name'', ''example_vpn_gateway'')],
      AttachVpnGateway (Some ''vgw-e961bef7'') (Some ''vpc-fgafegf'')] \<and>
   filter mutating (issued (vpn_conn_ensure_ok stocked_aws) vpn_conn_found) =
     [CreateTags (Some ''vpn-b0fbe4a2'') [(''Name'', ''example_vpn_connection'')]]"
proof -
  have c: "CustomerGatewayManager stocked_aws cgw_by_id = (Inr (), cgw_found)"
    by (simp add: eval_defs example_defs)
  have g: "VPNGatewayManager stocked_aws vpn_gw_by_id = (Inr (), vpn_gw_found)"
    by (simp add: eval_defs example_defs)
  have v: "VPNConnectionManager stocked_aws vpn_conn_by_id = (Inr (), vpn_conn_found)"
    by (simp add: eval_defs example_defs)
  have f: "cgw cgw_found = Some example_cgw" "vpn_gw vpn_gw_found = Some example_vpn_gw"
    "vpn_conn vpn_conn_found = Some example_vpn_conn"
    "is_dict (tags cgw_found)" "is_dict (tags vpn_gw_found)" "is_dict (tags vpn_conn_found)"
    "get_all_tags stocked_aws (Filters [(''resource-id'', self_id cgw_found)]) = Inr []"
    "get_all_tags stocked_aws (Filters [(''resource-id'', self_id vpn_gw_found)]) = Inr []"
    "get_all_tags stocked_aws (Filters [(''resource-id'', self_id vpn_conn_found)]) = Inr []"
    by (simp_all add: example_defs is_dict_def)
  have e: "self_id cgw_found = Some ''cgw-ec60bff4''" "self_id vpn_gw_found = Some ''vgw-e961bef7''"
    "self_id vpn_conn_found = Some ''vpn-b0fbe4a2''"
    "tags cgw_found = [(''Name'', ''example_cgw_w_bgp'')]"
    "tags vpn_gw_found = [(''Name'', ''example_vpn_gateway'')]"
    "tags vpn_conn_found = [(''Name'', ''example_vpn_connection'')]"
    "vpc vpn_gw_found = Some ''vpc-fgafegf''"
    "obj_id example_cgw = ''cgw-ec60bff4''" "obj_id example_vpn_gw = ''vgw-e961bef7''"
    "obj_id example_vpn_conn = ''vpn-b0fbe4a2''"
    "\<And>i d. create_tags stocked_aws i d = Inr True"
    by (simp_all add: example_defs)
  from ensure_ok_reconciles_found[where a = stocked_aws
      and m_c = cgw_found and g_c = example_cgw and args_c = cgw_by_id and r_c = "Inr ()"
      and remote_c = "[]"
      and m_g = vpn_gw_found and g_g = example_vpn_gw and args_g = vpn_gw_by_id and r_g = "Inr ()"
      and remote_g = "[]"
      and m_v = vpn_conn_found and g_v = example_vpn_conn and args_v = vpn_conn_by_id
      and r_v = "Inr ()" and remote_v = "[]"] c g v f
  show ?thesis by (auto simp: e dict_of_def dictadd_def truthy_def)
qed

section \<open>Ensure-absent\<close>

text \<open>
  Claim C6, as stated, fails for the VPN gateway. \<^verbatim>\<open>ensure_gone\<close> of \<^verbatim>\<open>VPNGatewayManager\<close>
  guards the detach call with \<^verbatim>\<open>if self.vpc and self.id:\<close>, not with the resource found.
  With \<^verbatim>\<open>state: absent\<close>, the id and the vpc of the module's example and a remote that
  holds no gateway, the lookup finds nothing, a detach call is issued, and the invocation
  reports \<open>changed = True\<close> with \<open>status = gone\<close>.
\<close>

theorem detach_on_missing_gateway_counterexample:
  "VPNGatewayManager empty_aws vpn_gw_by_id =
     (Inr (), vpn_gw_by_id\<lparr>calls := [GetAllVpnGateways NoArgs]\<rparr>) \<and>
   vpn_gw (vpn_gw_by_id\<lparr>calls := [GetAllVpnGateways NoArgs]\<rparr>) = None \<and>
   vpn_gw_main empty_aws (Some ''us-west-2'') absent vpn_gw_by_id =
     (Inr \<lparr>r_changed = True,
           r_info = [(''id'', PStr ''vgw-e961bef7''), (''status'', PStr ''gone'')]\<rparr>,
      [GetAllVpnGateways NoArgs,
       DetachVpnGateway (Some ''vgw-e961bef7'') (Some ''vpc-fgafegf''),
       GetAllVpnGateways (Ids [Some ''vgw-e961bef7''])])"
  by (simp add: eval_defs example_defs)

text \<open>The invocation with \<^verbatim>\<open>state: absent\<close> on a manager whose lookup found nothing.\<close>

lemma status_entry:
  "map_of (cgw_report m_c x) ''status'' = Some (PStr (status m_c))"
  "map_of (vpn_gw_report m_g y) ''status'' = Some (PStr (status m_g))"
  "map_of (vpn_conn_report m_v z) ''status'' = Some (PStr (status m_v))"
  by (simp_all add: cgw_report_def vpn_gw_report_def vpn_conn_report_def split: option.splits)

lemma cgw_main_gone:
  assumes "truthy region" "CustomerGatewayManager a args = (Inr (), m)" "cgw m = None"
    "truthy (self_id m) \<or> truthy (ip_address m)"
  shows "(\<exists>i. fst (cgw_main a region absent args) = Inr \<lparr>r_changed = False, r_info = i\<rparr> \<and>
              map_of i ''status'' = Some (PStr ''gone'')) \<and>
         filter mutating (snd (cgw_main a region absent args)) = []"
proof -
  have i: "\<not> changed m" "status m = ''gone''" "filter mutating (calls m) = []"
    using cgw_init_result[OF assms(2)] assms(3) by simp_all
  show ?thesis
    using assms i
    by (auto simp: cgw_main_def and_then_def cgw_ensure_gone_def ret_def cgw_get_info_def
          finish_def status_entry)
qed

lemma vpn_conn_main_gone:
  assumes "truthy region" "VPNConnectionManager a args = (Inr (), m)" "vpn_conn m = None"
  shows "(\<exists>i. fst (vpn_conn_main a region absent args) = Inr \<lparr>r_changed = False, r_info = i\<rparr> \<and>
              map_of i ''status'' = Some (PStr ''gone'')) \<and>
         filter mutating (snd (vpn_conn_main a region absent args)) = []"
proof -
  have i: "\<not> changed m" "status m = ''gone''" "filter mutating (calls m) = []"
    using vpn_conn_init_result[OF assms(2)] assms(3) by simp_all
  show ?thesis
    using assms i
    by (auto simp: vpn_conn_main_def and_then_def vpn_conn_ensure_gone_def ret_def
          vpn_conn_get_info_def finish_def status_entry)
qed

lemma vpn_gw_main_gone:
  assumes "truthy region" "VPNGatewayManager a args = (Inr (), m)" "vpn_gw m = None"
    "\<not> (truthy (vpc m) \<and> truthy (self_id m))"
  shows "(\<exists>i. fst (vpn_gw_main a region absent args) = Inr \<lparr>r_changed = False, r_info = i\<rparr> \<and>
              map_of i ''status'' = Some (PStr ''gone'')) \<and>
         filter mutating (snd (vpn_gw_main a region absent args)) = []"
proof -
  have i: "\<not> changed m" "status m = ''gone''" "filter mutating (calls m) = []"
    using vpn_gw_init_result[OF assms(2)] assms(3) by simp_all
  show ?thesis
    using assms i
    by (auto simp: vpn_gw_main_def and_then_def vpn_gw_dispatch_def vpn_gw_ensure_gone_def ret_def
          vpn_gw_get_info_def finish_def status_entry)
qed

lemma vpn_gw_main_detach:
  assumes "truthy region" "VPNGatewayManager a args = (Inr (), m)" "vpn_gw m = None"
    "truthy (vpc m)" "truthy (self_id m)"
  shows "filter mutating (snd (vpn_gw_main a region absent args)) =
           [DetachVpnGateway (self_id m) (vpc m)] \<and>
         (detach_vpn_gateway a (self_id m) (vpc m) = Inr b \<longrightarrow>
            (\<exists>i. fst (vpn_gw_main a region absent args) = Inr \<lparr>r_changed = b, r_info = i\<rparr> \<and>
                 map_of i ''status'' = Some (PStr ''gone'')))"
proof -
  have i: "\<not> changed m" "status m = ''gone''" "filter mutating (calls m) = []"
    using vpn_gw_init_result[OF assms(2)] assms(3) by simp_all
  show ?thesis
    using assms i
    by (cases "detach_vpn_gateway a (self_id m) (vpc m)")
       (auto simp: vpn_gw_main_def and_then_def vpn_gw_dispatch_def vpn_gw_ensure_gone_def ret_def
          detach_vpn_gw_def remote_def vpn_gw_get_info_def finish_def status_entry)
qed

text \<open>
  Claim C6, amended. \<^verbatim>\<open>ensure_gone\<close> on a resource that the lookup did not find is a
  no-op: it returns the manager as it was, without any remote call, and the invocation
  with \<^verbatim>\<open>state: absent\<close> issues no mutating call and has the result \<open>changed = False\<close>,
  \<open>status = gone\<close>. This holds for the VPN connection, for the customer gateway (the
  invocation result when an id or an ip address is given), and for the VPN gateway unless
  both \<^verbatim>\<open>self.vpc\<close> and \<^verbatim>\<open>self.id\<close> are truthy. When both are, the VPN gateway's
  \<^verbatim>\<open>ensure_gone\<close> issues exactly one call, the detach call (no delete call); the status in
  the result is still \<open>gone\<close>, and when the detach call returns, the reported \<open>changed\<close> is
  the truth value it returned.
\<close>

theorem ensure_gone_nothing_found:
  "(cgw m_c = None \<longrightarrow> cgw_ensure_gone a m_c = (Inr (), m_c)) \<and>
   (vpn_conn m_v = None \<longrightarrow> vpn_conn_ensure_gone a m_v = (Inr (), m_v)) \<and>
   (vpn_gw m_g = None \<and> \<not> (truthy (vpc m_g) \<and> truthy (self_id m_g)) \<longrightarrow>
      vpn_gw_ensure_gone a m_g = (Inr (), m_g)) \<and>
   (vpn_gw m_d = None \<and> truthy (vpc m_d) \<and> truthy (self_id m_d) \<longrightarrow>
      issued (vpn_gw_ensure_gone a) m_d = [DetachVpnGateway (self_id m_d) (vpc m_d)] \<and>
      status (snd (vpn_gw_ensure_gone a m_d)) = status m_d \<and>
      changed (snd (vpn_gw_ensure_gone a m_d)) =
        (changed m_d \<or> detach_vpn_gateway a (self_id m_d) (vpc m_d) = Inr True)) \<and>
   (CustomerGatewayManager a args_c = (r_c, m_c) \<and> cgw m_c = None \<longrightarrow>
      \<not> changed m_c \<and> status m_c = ''gone'') \<and>
   (VPNGatewayManager a args_g = (r_g, m_g) \<and> vpn_gw m_g = None \<longrightarrow>
      \<not> changed m_g \<and> status m_g = ''gone'') \<and>
   (VPNConnectionManager a args_v = (r_v, m_v) \<and> vpn_conn m_v = None \<longrightarrow>
      \<not> changed m_v \<and> status m_v = ''gone'') \<and>
   (truthy region \<and> CustomerGatewayManager a args_c = (Inr (), m_c) \<and> cgw m_c = None \<and>
    (truthy (self_id m_c) \<or> truthy (ip_address m_c)) \<longrightarrow>
      (\<exists>i. fst (cgw_main a region absent args_c) = Inr \<lparr>r_changed = False, r_info = i\<rparr> \<and>
           map_of i ''status'' = Some (PStr ''gone'')) \<and>
      filter mutating (snd (cgw_main a region absent args_c)) = []) \<and>
   (truthy region \<and> VPNConnectionManager a args_v = (Inr (), m_v) \<and> vpn_conn m_v = None \<longrightarrow>
      (\<exists>i. fst (vpn_conn_main a region absent args_v) = Inr \<lparr>r_changed = False, r_info = i\<rparr> \<and>
           map_of i ''status'' = Some (PStr ''gone'')) \<and>
      filter mutating (snd (vpn_conn_main a region absent args_v)) = []) \<and>
   (truthy region \<and> VPNGatewayManager a args_g = (Inr (), m_g) \<and> vpn_gw m_g = None \<and>
    \<not> (truthy (vpc m_g) \<and> truthy (self_id m_g)) \<longrightarrow>
      (\<exists>i. fst (vpn_gw_main a region absent args_g) = Inr \<lparr>r_changed = False, r_info = i\<rparr> \<and>
           map_of i ''status'' = Some (PStr ''gone'')) \<and>
      filter mutating (snd (vpn_gw_main a region absent args_g)) = []) \<and>
   (truthy region \<and> VPNGatewayManager a args_d = (Inr (), m_d) \<and> vpn_gw m_d = None \<and>
    truthy (vpc m_d) \<and> truthy (self_id m_d) \<longrightarrow>
      filter mutating (snd (vpn_gw_main a region absent args_d)) =
        [DetachVpnGateway (self_id m_d) (vpc m_d)] \<and>
      (detach_vpn_gateway a (self_id m_d) (vpc m_d) = Inr b \<longrightarrow>
         (\<exists>i. fst (vpn_gw_main a region absent args_d) = Inr \<lparr>r_changed = b, r_info = i\<rparr> \<and>
              map_of i ''status'' = Some (PStr ''gone''))))"
proof -
  have d: "vpn_gw m_d = None \<and> truthy (vpc m_d) \<and> truthy (self_id m_d) \<longrightarrow>
      issued (vpn_gw_ensure_gone a) m_d = [DetachVpnGateway (self_id m_d) (vpc m_d)] \<and>
      status (snd (vpn_gw_ensure_gone a m_d)) = status m_d \<and>
      changed (snd (vpn_gw_ensure_gone a m_d)) =
        (changed m_d \<or> detach_vpn_gateway a (self_id m_d) (vpc m_d) = Inr True)"
    by (cases "detach_vpn_gateway a (self_id m_d) (vpc m_d)")
       (auto simp: issued_def vpn_gw_ensure_gone_def detach_vpn_gw_def and_then_def remote_def
          ret_def)
  have e1: "cgw m_c = None \<longrightarrow> cgw_ensure_gone a m_c = (Inr (), m_c)"
    by (simp add: cgw_ensure_gone_def ret_def)
  have e2: "vpn_conn m_v = None \<longrightarrow> vpn_conn_ensure_gone a m_v = (Inr (), m_v)"
    by (simp add: vpn_conn_ensure_gone_def ret_def)
  have e3: "vpn_gw m_g = None \<and> \<not> (truthy (vpc m_g) \<and> truthy (self_id m_g)) \<longrightarrow>
      vpn_gw_ensure_gone a m_g = (Inr (), m_g)"
    by (auto simp: vpn_gw_ensure_gone_def and_then_def ret_def)
  have i1: "CustomerGatewayManager a args_c = (r_c, m_c) \<and> cgw m_c = None \<longrightarrow>
      \<not> changed m_c \<and> status m_c = ''gone''"
    using cgw_init_result[of a args_c r_c m_c] by simp
  have i2: "VPNGatewayManager a args_g = (r_g, m_g) \<and> vpn_gw m_g = None \<longrightarrow>
      \<not> changed m_g \<and> status m_g = ''gone''"
    using vpn_gw_init_result[of a args_g r_g m_g] by simp
  have i3: "VPNConnectionManager a args_v = (r_v, m_v) \<and> vpn_conn m_v = None \<longrightarrow>
      \<not> changed m_v \<and> status m_v = ''gone''"
    using vpn_conn_init_result[of a args_v r_v m_v] by simp
  have m1: "truthy region \<and> CustomerGatewayManager a args_c = (Inr (), m_c) \<and> cgw m_c = None \<and>
    (truthy (self_id m_c) \<or> truthy (ip_address m_c)) \<longrightarrow>
      (\<exists>i. fst (cgw_main a region absent args_c) = Inr \<lparr>r_changed = False, r_info = i\<rparr> \<and>
           map_of i ''status'' = Some (PStr ''gone'')) \<and>
      filter mutating (snd (cgw_main a region absent args_c)) = []"
    using cgw_main_gone[of region a args_c m_c] by simp
  have m2: "truthy region \<and> VPNConnectionManager a args_v = (Inr (), m_v) \<and> vpn_conn m_v = None \<longrightarrow>
      (\<exists>i. fst (vpn_conn_main a region absent args_v) = Inr \<lparr>r_changed = False, r_info = i\<rparr> \<and>
           map_of i ''status'' = Some (PStr ''gone'')) \<and>
      filter mutating (snd (vpn_conn_main a region absent args_v)) = []"
    using vpn_conn_main_gone[of region a args_v m_v] by simp
  have m3: "truthy region \<and> VPNGatewayManager a args_g = (Inr (), m_g) \<and> vpn_gw m_g = None \<and>
    \<not> (truthy (vpc m_g) \<and> truthy (self_id m_g)) \<longrightarrow>
      (\<exists>i. fst (vpn_gw_main a region absent args_g) = Inr \<lparr>r_changed = False, r_info = i\<rparr> \<and>
           map_of i ''status'' = Some (PStr ''gone'')) \<and>
      filter mutating (snd (vpn_gw_main a region absent args_g)) = []"
    using vpn_gw_main_gone[of region a args_g m_g] by simp
  have m4: "truthy region \<and> VPNGatewayManager a args_d = (Inr (), m_d) \<and> vpn_gw m_d = None \<and>
    truthy (vpc m_d) \<and> truthy (self_id m_d) \<longrightarrow>
      filter mutating (snd (vpn_gw_main a region absent args_d)) =
        [DetachVpnGateway (self_id m_d) (vpc m_d)] \<and>
      (detach_vpn_gateway a (self_id m_d) (vpc m_d) = Inr b \<longrightarrow>
         (\<exists>i. fst (vpn_gw_main a region absent args_d) = Inr \<lparr>r_changed = b, r_info = i\<rparr> \<and>
              map_of i ''status'' = Some (PStr ''gone'')))"
    using vpn_gw_main_detach[of region a args_d m_d b] by simp
  from e1 e2 e3 d i1 i2 i3 m1 m2 m3 m4 show ?thesis by (intro conjI)
qed

theorem ensure_gone_nothing_found_witness:
  "truthy (Some ''us-west-2'') \<and>
   CustomerGatewayManager empty_aws cgw_args =
     (Inr (), cgw_args\<lparr>calls := [GetAllCustomerGateways NoArgs]\<rparr>) \<and>
   VPNGatewayManager empty_aws vpn_gw_args =
     (Inr (), vpn_gw_args\<lparr>calls := [GetAllVpnGateways NoArgs]\<rparr>) \<and>
   VPNGatewayManager empty_aws vpn_gw_by_id =
     (Inr (), vpn_gw_by_id\<lparr>calls := [GetAllVpnGateways NoArgs]\<rparr>) \<and>
   VPNConnectionManager empty_aws vpn_conn_args =
     (Inr (), vpn_conn_args\<lparr>calls := [GetAllVpnConnections NoArgs]\<rparr>) \<and>
   truthy (ip_address (cgw_args\<lparr>calls := [GetAllCustomerGateways NoArgs]\<rparr>)) \<and>
   cgw_ensure_gone empty_aws (cgw_args\<lparr>calls := [GetAllCustomerGateways NoArgs]\<rparr>) =
     (Inr (), cgw_args\<lparr>calls := [GetAllCustomerGateways NoArgs]\<rparr>) \<and>
   vpn_gw_ensure_gone empty_aws (vpn_gw_args\<lparr>calls := [GetAllVpnGateways NoArgs]\<rparr>) =
     (Inr (), vpn_gw_args\<lparr>calls := [GetAllVpnGateways NoArgs]\<rparr>) \<and>
   vpn_conn_ensure_gone empty_aws (vpn_conn_args\<lparr>calls := [GetAllVpnConnections NoArgs]\<rparr>) =
     (Inr (), vpn_conn_args\<lparr>calls := [GetAllVpnConnections NoArgs]\<rparr>) \<and>
   (\<exists>i. fst (cgw_main empty_aws (Some ''us-west-2'') absent cgw_args) =
          Inr \<lparr>r_changed = False, r_info = i\<rparr> \<and> map_of i ''status'' = Some (PStr ''gone'')) \<and>
   filter mutating (snd (cgw_main empty_aws (Some ''us-west-2'') absent cgw_args)) = [] \<and>
   (\<exists>i. fst (vpn_gw_main empty_aws (Some ''us-west-2'') absent vpn_gw_args) =
          Inr \<lparr>r_changed = False, r_info = i\<rparr> \<and> map_of i ''status'' = Some (PStr ''gone'')) \<and>
   filter mutating (snd (vpn_gw_main empty_aws (Some ''us-west-2'') absent vpn_gw_args)) = [] \<and>
   (\<exists>i. fst (vpn_conn_main empty_aws (Some ''us-west-2'') absent vpn_conn_args) =
          Inr \<lparr>r_changed = False, r_info = i\<rparr> \<and> map_of i ''status'' = Some (PStr ''gone'')) \<and>
   filter mutating (snd (vpn_conn_main empty_aws (Some ''us-west-2'') absent vpn_conn_args)) = [] \<and>
   issued (vpn_gw_ensure_gone empty_aws) (vpn_gw_by_id\<lparr>calls := [GetAllVpnGateways NoArgs]\<rparr>) =
     [DetachVpnGateway (Some ''vgw-e961bef7'') (Some ''vpc-fgafegf'')] \<and>
   filter mutating (snd (vpn_gw_main empty_aws (Some ''us-west-2'') absent vpn_gw_by_id)) =
     [DetachVpnGateway (Some ''vgw-e961bef7'') (Some ''vpc-fgafegf'')] \<and>
   (\<exists>i. fst (vpn_gw_main empty_aws (Some ''us-west-2'') absent vpn_gw_by_id) =
          Inr \<lparr>r_changed = True, r_info = i\<rparr> \<and> map_of i ''status'' = Some (PStr ''gone''))"
proof -
  let ?mc = "cgw_args\<lparr>calls := [GetAllCustomerGateways NoArgs]\<rparr>"
  let ?mg = "vpn_gw_args\<lparr>calls := [GetAllVpnGateways NoArgs]\<rparr>"
  let ?mv = "vpn_conn_args\<lparr>calls := [GetAllVpnConnections NoArgs]\<rparr>"
  let ?md = "vpn_gw_by_id\<lparr>calls := [GetAllVpnGateways NoArgs]\<rparr>"
  have r: "truthy (Some ''us-west-2'')" by (simp add: truthy_def)
  have c: "CustomerGatewayManager empty_aws cgw_args = (Inr (), ?mc)"
    by (simp add: eval_defs example_defs)
  have g: "VPNGatewayManager empty_aws vpn_gw_args = (Inr (), ?mg)"
    by (simp add: eval_defs example_defs)
  have gd: "VPNGatewayManager empty_aws vpn_gw_by_id = (Inr (), ?md)"
    by (simp add: eval_defs example_defs)
  have v: "VPNConnectionManager empty_aws vpn_conn_args = (Inr (), ?mv)"
    by (simp add: eval_defs example_defs)
  have h: "cgw ?mc = None" "vpn_conn ?mv = None" "vpn_gw ?mg = None"
    "\<not> (truthy (vpc ?mg) \<and> truthy (self_id ?mg))"
    "vpn_gw ?md = None" "truthy (vpc ?md)" "truthy (self_id ?md)"
    "truthy (ip_address ?mc)"
    "detach_vpn_gateway empty_aws (self_id ?md) (vpc ?md) = Inr True"
    by (simp_all add: example_defs truthy_def)
  have i: "self_id ?md = Some ''vgw-e961bef7''" "vpc ?md = Some ''vpc-fgafegf''"
    by (simp_all add: example_defs)
  note th = ensure_gone_nothing_found[where a = empty_aws and region = "Some ''us-west-2''"
      and m_c = ?mc and m_v = ?mv and m_g = ?mg and m_d = ?md
      and args_c = cgw_args and r_c = "Inr ()" and args_g = vpn_gw_args and r_g = "Inr ()"
      and args_v = vpn_conn_args and r_v = "Inr ()" and args_d = vpn_gw_by_id and b = True]
  have 1: "cgw_ensure_gone empty_aws ?mc = (Inr (), ?mc)"
    "vpn_gw_ensure_gone empty_aws ?mg = (Inr (), ?mg)"
    "vpn_conn_ensure_gone empty_aws ?mv = (Inr (), ?mv)"
    using th h by blast+
  have 2: "\<exists>i. fst (cgw_main empty_aws (Some ''us-west-2'') absent cgw_args) =
          Inr \<lparr>r_changed = False, r_info = i\<rparr> \<and> map_of i ''status'' = Some (PStr ''gone'')"
    "filter mutating (snd (cgw_main empty_aws (Some ''us-west-2'') absent cgw_args)) = []"
    using th r c h by blast+
  have 3: "\<exists>i. fst (vpn_gw_main empty_aws (Some ''us-west-2'') absent vpn_gw_args) =
          Inr \<lparr>r_changed = False, r_info = i\<rparr> \<and> map_of i ''status'' = Some (PStr ''gone'')"
    "filter mutating (snd (vpn_gw_main empty_aws (Some ''us-west-2'') absent vpn_gw_args)) = []"
    using th r g h by blast+
  have 4: "\<exists>i. fst (vpn_conn_main empty_aws (Some ''us-west-2'') absent vpn_conn_args) =
          Inr \<lparr>r_changed = False, r_info = i\<rparr> \<and> map_of i ''status'' = Some (PStr ''gone'')"
    "filter mutating (snd (vpn_conn_main empty_aws (Some ''us-west-2'') absent vpn_conn_args)) = []"
    using th r v h by blast+
  have 5: "issued (vpn_gw_ensure_gone empty_aws) ?md = [DetachVpnGateway (self_id ?md) (vpc ?md)]"
    "filter mutating (snd (vpn_gw_main empty_aws (Some ''us-west-2'') absent vpn_gw_by_id)) =
       [DetachVpnGateway (self_id ?md) (vpc ?md)]"
    "\<exists>i. fst (vpn_gw_main empty_aws (Some ''us-west-2'') absent vpn_gw_by_id) =
          Inr \<lparr>r_changed = True, r_info = i\<rparr> \<and> map_of i ''status'' = Some (PStr ''gone'')"
    using th r gd h by blast+
  from r c g gd v h(8) 1 2 3 4 5[unfolded i] show ?thesis by (intro conjI)
qed

section \<open>Info reporting\<close>

text \<open>
  Claim C7 fails on the code by a slip. In \<^verbatim>\<open>CustomerGatewayManager.get_info\<close> the variable
  \<^verbatim>\<open>check_aws\<close> is assigned only under \<^verbatim>\<open>if self.id:\<close> or \<^verbatim>\<open>elif self.ip_address:\<close>; with both
  unset it is read unbound, outside the \<^verbatim>\<open>try\<close> block. The customer gateway module called
  with \<^verbatim>\<open>state: absent\<close> and tags only, on a remote without a matching gateway, ends with
  \<^verbatim>\<open>UnboundLocalError\<close> instead of the minimal report.
\<close>

theorem get_info_unbound_local:
  "cgw_main empty_aws (Some ''us-west-2'') absent tags_only_args =
     (Inl (UnboundLocalError ''check_aws''), [GetAllCustomerGateways NoArgs])"
  by (simp add: eval_defs example_defs)

section \<open>Ambiguous lookups\<close>

text \<open>When every tag fetch succeeds the search by tags collects the matching resources.\<close>

lemma search_by_tags_all:
  assumes "\<forall>x\<in>set xs. \<exists>ts. get_all_tags a (resource_filter (Some (obj_id x))) = Inr ts"
  shows "search_by_tags a w xs found m =
           (Inr (found @ filter (\<lambda>x. tags_match w (remote_dict a x)) xs),
            m\<lparr>calls := calls m @ map (\<lambda>x. GetAllTags (resource_filter (Some (obj_id x)))) xs\<rparr>)"
  using assms
proof (induction xs arbitrary: found m)
  case Nil
  show ?case by simp
next
  case (Cons x xs)
  obtain ts where ts: "get_all_tags a (resource_filter (Some (obj_id x))) = Inr ts"
    using Cons.prems by auto
  have rest: "\<forall>y\<in>set xs. \<exists>ts. get_all_tags a (resource_filter (Some (obj_id y))) = Inr ts"
    using Cons.prems by simp
  show ?case
    by (simp add: ts Cons.IH[OF rest] remote_dict_def)
qed

lemma tags_match_matching:
  "w \<noteq> [] \<Longrightarrow> filter (\<lambda>x. tags_match w (remote_dict a x)) xs = matching a w xs"
  by (simp add: tags_match_def matching_def)

lemma reads_not_mutating:
  "filter mutating (map (\<lambda>x. GetAllTags (resource_filter (Some (obj_id x)))) xs) = []"
  by (induction xs) simp_all

lemma cgw_main_ambiguous:
  assumes "truthy region" "connect_to_aws a = Inr ()" "st = present \<longrightarrow> truthy (ip_address args)"
    "\<not> truthy (self_id args)" "tags args \<noteq> []"
    "get_all_customer_gateways a NoArgs = Inr xs"
    "\<forall>x\<in>set xs. \<exists>ts. get_all_tags a (resource_filter (Some (obj_id x))) = Inr ts"
    "length (matching a (tags args) xs) > 1"
  shows "cgw_main a region st args =
           (Inl (FailJson more_than_one_cgw_msg),
            GetAllCustomerGateways NoArgs #
            map (\<lambda>x. GetAllTags (resource_filter (Some (obj_id x)))) xs)"
  using assms
  by (simp add: cgw_main_def finish_def CustomerGatewayManager_def get_aws_connection_def
        get_customer_gateway_def and_then_def remote_def ret_def throw_def
        search_by_tags_all tags_match_matching)

lemma vpn_gw_main_ambiguous:
  assumes "truthy region" "connect_to_aws a = Inr ()"
    "\<not> truthy (self_id args)" "tags args \<noteq> []"
    "get_all_vpn_gateways a NoArgs = Inr xs"
    "\<forall>x\<in>set xs. \<exists>ts. get_all_tags a (resource_filter (Some (obj_id x))) = Inr ts"
    "length (matching a (tags args) xs) > 1"
  shows "vpn_gw_main a region st args =
           (Inl (FailJson more_than_one_vpn_gw_msg),
            GetAllVpnGateways NoArgs #
            map (\<lambda>x. GetAllTags (resource_filter (Some (obj_id x)))) xs)"
  using assms
  by (simp add: vpn_gw_main_def finish_def VPNGatewayManager_def get_aws_connection_def
        get_vpn_gateway_def and_then_def remote_def ret_def throw_def
        search_by_tags_all tags_match_matching)

lemma vpn_conn_main_ambiguous:
  assumes "truthy region" "connect_to_aws a = Inr ()"
    "\<not> truthy (self_id args)" "tags args \<noteq> []"
    "get_all_vpn_connections a NoArgs = Inr xs"
    "\<forall>x\<in>set xs. \<exists>ts. get_all_tags a (resource_filter (Some (obj_id x))) = Inr ts"
    "length (matching a (tags args) xs) > 1"
  shows "vpn_conn_main a region st args =
           (Inl (FailJson more_than_one_vpn_conn_msg),
            GetAllVpnConnections NoArgs #
            map (\<lambda>x. GetAllTags (resource_filter (Some (obj_id x)))) xs)"
  using assms
  by (simp add: vpn_conn_main_def finish_def VPNConnectionManager_def get_aws_connection_def
        get_vpn_connection_def and_then_def remote_def ret_def throw_def
        search_by_tags_all tags_match_matching)

text \<open>
  Claim C3, as stated, fails when an id is supplied: the lookup is
  \<^verbatim>\<open>if self.id: ... elif self.tags: ...\<close>, so with an id the tags are not consulted. The
  customer gateway module called with \<^verbatim>\<open>state: absent\<close>, the id of an existing gateway and
  a tag that two gateways carry does not abort: it deletes the gateway.
\<close>

theorem lookup_by_id_ignores_tags_counterexample:
  "length (matching twin_aws (tags cgw_twin_by_id)
             [example_cgw, example_cgw\<lparr>obj_id := ''cgw-2''\<rparr>]) = 2 \<and>
   cgw_main twin_aws (Some ''us-west-2'') absent cgw_twin_by_id =
     (Inr \<lparr>r_changed = True,
           r_info = [(''ip_address'', PStr ''1.1.1.1''), (''id'', PStr ''cgw-ec60bff4''),
                     (''bgp_asn'', PInt 65000), (''type'', PStr ''ipsec.1''),
                     (''status'', PStr ''deleted'')]\<rparr>,
      [GetAllCustomerGateways NoArgs,
       DeleteCustomerGateway (Some ''cgw-ec60bff4''),
       GetAllCustomerGateways (Ids [Some ''cgw-ec60bff4''])])"
  by (simp add: eval_defs example_defs matching_def remote_dict_def)

text \<open>
  Claim C3, amended. For each of the three resource kinds: when no id is supplied, the
  supplied tag set is not empty and more than one remote resource matches it (the remote
  answering the listing and every tag query), the invocation ends, with \<^verbatim>\<open>state: present\<close>
  as with \<^verbatim>\<open>state: absent\<close>, with the fatal error \<open>Found more than one ...\<close>, raised by the
  lookup in the manager's constructor before \<^verbatim>\<open>ensure_ok\<close> or \<^verbatim>\<open>ensure_gone\<close> is entered,
  and no mutating remote call has been issued. (For the customer gateway with
  \<^verbatim>\<open>state: present\<close> the ip address must be given, else \<^verbatim>\<open>main\<close> fails earlier.)
\<close>

theorem ambiguous_lookup_aborts:
  "(truthy region \<and> connect_to_aws a = Inr () \<and> (st = present \<longrightarrow> truthy (ip_address args_c)) \<and>
    \<not> truthy (self_id args_c) \<and> tags args_c \<noteq> [] \<and>
    get_all_customer_gateways a NoArgs = Inr xs_c \<and>
    (\<forall>x\<in>set xs_c. \<exists>ts. get_all_tags a (resource_filter (Some (obj_id x))) = Inr ts) \<and>
    length (matching a (tags args_c) xs_c) > 1 \<longrightarrow>
      fst (cgw_main a region st args_c) = Inl (FailJson more_than_one_cgw_msg) \<and>
      filter mutating (snd (cgw_main a region st args_c)) = []) \<and>
   (truthy region \<and> connect_to_aws a = Inr () \<and>
    \<not> truthy (self_id args_g) \<and> tags args_g \<noteq> [] \<and>
    get_all_vpn_gateways a NoArgs = Inr xs_g \<and>
    (\<forall>x\<in>set xs_g. \<exists>ts. get_all_tags a (resource_filter (Some (obj_id x))) = Inr ts) \<and>
    length (matching a (tags args_g) xs_g) > 1 \<longrightarrow>
      fst (vpn_gw_main a region st args_g) = Inl (FailJson more_than_one_vpn_gw_msg) \<and>
      filter mutating (snd (vpn_gw_main a region st args_g)) = []) \<and>
   (truthy region \<and> connect_to_aws a = Inr () \<and>
    \<not> truthy (self_id args_v) \<and> tags args_v \<noteq> [] \<and>
    get_all_vpn_connections a NoArgs = Inr xs_v \<and>
    (\<forall>x\<in>set xs_v. \<exists>ts. get_all_tags a (resource_filter (Some (obj_id x))) = Inr ts) \<and>
    length (matching a (tags args_v) xs_v) > 1 \<longrightarrow>
      fst (vpn_conn_main a region st args_v) = Inl (FailJson more_than_one_vpn_conn_msg) \<and>
      filter mutating (snd (vpn_conn_main a region st args_v)) = [])"
  using cgw_main_ambiguous[of region a st args_c xs_c]
    vpn_gw_main_ambiguous[of region a args_g xs_g st]
    vpn_conn_main_ambiguous[of region a args_v xs_v st]
  by (simp add: reads_not_mutating)

theorem ambiguous_lookup_aborts_witness:
  "truthy (Some ''us-west-2'') \<and> connect_to_aws twin_aws = Inr () \<and>
   truthy (ip_address cgw_twin_args) \<and> \<not> truthy (self_id cgw_twin_args) \<and>
   \<not> truthy (self_id vpn_gw_twin_args) \<and> \<not> truthy (self_id vpn_conn_twin_args) \<and>
   length (matching twin_aws (tags cgw_twin_args)
             [example_cgw, example_cgw\<lparr>obj_id := ''cgw-2''\<rparr>]) = 2 \<and>
   length (matching twin_aws (tags vpn_gw_twin_args)
             [example_vpn_gw, example_vpn_gw\<lparr>obj_id := ''vgw-2''\<rparr>]) = 2 \<and>
   length (matching twin_aws (tags vpn_conn_twin_args)
             [example_vpn_conn, example_vpn_conn\<lparr>obj_id := ''vpn-2''\<rparr>]) = 2 \<and>
   fst (cgw_main twin_aws (Some ''us-west-2'') present cgw_twin_args)
     = Inl (FailJson more_than_one_cgw_msg) \<and>
   filter mutating (snd (cgw_main twin_aws (Some ''us-west-2'') present cgw_twin_args)) = [] \<and>
   fst (vpn_gw_main twin_aws (Some ''us-west-2'') present vpn_gw_twin_args)
     = Inl (FailJson more_than_one_vpn_gw_msg) \<and>
   filter mutating (snd (vpn_gw_main twin_aws (Some ''us-west-2'') present vpn_gw_twin_args)) = [] \<and>
   fst (vpn_conn_main twin_aws (Some ''us-west-2'') present vpn_conn_twin_args)
     = Inl (FailJson more_than_one_vpn_conn_msg) \<and>
   filter mutating (snd (vpn_conn_main twin_aws (Some ''us-west-2'') present vpn_conn_twin_args)) = []"
proof -
  have h: "truthy (Some ''us-west-2'')" "connect_to_aws twin_aws = Inr ()"
    "truthy (ip_address cgw_twin_args)" "\<not> truthy (self_id cgw_twin_args)"
    "\<not> truthy (self_id vpn_gw_twin_args)" "\<not> truthy (self_id vpn_conn_twin_args)"
    "tags cgw_twin_args \<noteq> []" "tags vpn_gw_twin_args \<noteq> []" "tags vpn_conn_twin_args \<noteq> []"
    "get_all_customer_gateways twin_aws NoArgs = Inr [example_cgw, example_cgw\<lparr>obj_id := ''cgw-2''\<rparr>]"
    "get_all_vpn_gateways twin_aws NoArgs = Inr [example_vpn_gw, example_vpn_gw\<lparr>obj_id := ''vgw-2''\<rparr>]"
    "get_all_vpn_connections twin_aws NoArgs =
       Inr [example_vpn_conn, example_vpn_conn\<lparr>obj_id := ''vpn-2''\<rparr>]"
    "\<And>q. get_all_tags twin_aws q = Inr [(''Name'', ''twin'')]"
    by (simp_all add: example_defs truthy_def)
  have l: "length (matching twin_aws (tags cgw_twin_args)
             [example_cgw, example_cgw\<lparr>obj_id := ''cgw-2''\<rparr>]) = 2"
    "length (matching twin_aws (tags vpn_gw_twin_args)
             [example_vpn_gw, example_vpn_gw\<lparr>obj_id := ''vgw-2''\<rparr>]) = 2"
    "length (matching twin_aws (tags vpn_conn_twin_args)
             [example_vpn_conn, example_vpn_conn\<lparr>obj_id := ''vpn-2''\<rparr>]) = 2"
    by (simp_all add: matching_def remote_dict_def h(13) dict_of_def cgw_twin_args_def
          vpn_gw_twin_args_def vpn_conn_twin_args_def)
  from ambiguous_lookup_aborts[where a = twin_aws and region = "Some ''us-west-2''"
      and st = present and args_c = cgw_twin_args and args_g = vpn_gw_twin_args
      and args_v = vpn_conn_twin_args
      and xs_c = "[example_cgw, example_cgw\<lparr>obj_id := ''cgw-2''\<rparr>]"
      and xs_g = "[example_vpn_gw, example_vpn_gw\<lparr>obj_id := ''vgw-2''\<rparr>]"
      and xs_v = "[example_vpn_conn, example_vpn_conn\<lparr>obj_id := ''vpn-2''\<rparr>]"] h l
  show ?thesis by simp
qed

section \<open>Route propagation\<close>

text \<open>The log of the two loops: one call per route table, up to the first that raises.\<close>

lemma enable_loop_log:
  "\<exists>k\<le>length routes. snd (enable_loop a routes results m) =
      m\<lparr>calls := calls m @ map (\<lambda>rt. EnableVgwRoutePropagation rt (self_id m)) (take k routes)\<rparr>"
proof (induction routes arbitrary: results m)
  case Nil
  show ?case by simp
next
  case (Cons route routes)
  let ?c = "EnableVgwRoutePropagation route (self_id m)"
  let ?m1 = "m\<lparr>calls := calls m @ [?c]\<rparr>"
  show ?case
  proof (cases "enable_vgw_route_propagation a route (self_id m)")
    case (Inl e)
    show ?thesis by (rule exI[of _ 1]) (simp add: Inl)
  next
    case (Inr r)
    obtain k where k: "k \<le> length routes"
      "snd (enable_loop a routes (if r then results @ [r] else results) ?m1) =
         ?m1\<lparr>calls := calls ?m1 @ map (\<lambda>rt. EnableVgwRoutePropagation rt (self_id ?m1)) (take k routes)\<rparr>"
      using Cons.IH[of "if r then results @ [r] else results" ?m1] by blast
    show ?thesis by (rule exI[of _ "Suc k"]) (simp add: Inr k)
  qed
qed

lemma disable_loop_log:
  "\<exists>k\<le>length routes. snd (disable_loop a routes results m) =
      m\<lparr>calls := calls m @ map (\<lambda>rt. DisableVgwRoutePropagation rt (self_id m)) (take k routes)\<rparr>"
proof (induction routes arbitrary: results m)
  case Nil
  show ?case by simp
next
  case (Cons route routes)
  let ?c = "DisableVgwRoutePropagation route (self_id m)"
  let ?m1 = "m\<lparr>calls := calls m @ [?c]\<rparr>"
  show ?case
  proof (cases "disable_vgw_route_propagation a route (self_id m)")
    case (Inl e)
    show ?thesis by (rule exI[of _ 1]) (simp add: Inl)
  next
    case (Inr r)
    obtain k where k: "k \<le> length routes"
      "snd (disable_loop a routes (if r then results @ [r] else results) ?m1) =
         ?m1\<lparr>calls := calls ?m1 @ map (\<lambda>rt. DisableVgwRoutePropagation rt (self_id ?m1)) (take k routes)\<rparr>"
      using Cons.IH[of "if r then results @ [r] else results" ?m1] by blast
    show ?thesis by (rule exI[of _ "Suc k"]) (simp add: Inr k)
  qed
qed

lemma enable_loop_all:
  assumes "\<forall>rt\<in>set routes. \<exists>r. enable_vgw_route_propagation a rt (self_id m) = Inr r"
  shows "enable_loop a routes results m =
           (Inr (results @ map (\<lambda>rt. True)
                   (filter (\<lambda>rt. enable_vgw_route_propagation a rt (self_id m) = Inr True) routes)),
            m\<lparr>calls := calls m @ map (\<lambda>rt. EnableVgwRoutePropagation rt (self_id m)) routes\<rparr>)"
  using assms
proof (induction routes arbitrary: results m)
  case Nil
  show ?case by simp
next
  case (Cons route routes)
  obtain r where r: "enable_vgw_route_propagation a route (self_id m) = Inr r"
    using Cons.prems by auto
  let ?m1 = "m\<lparr>calls := calls m @ [EnableVgwRoutePropagation route (self_id m)]\<rparr>"
  have rest: "\<forall>rt\<in>set routes. \<exists>r. enable_vgw_route_propagation a rt (self_id ?m1) = Inr r"
    using Cons.prems by simp
  show ?case by (cases r) (simp_all add: r Cons.IH[OF rest])
qed


lemma disable_loop_all:
  assumes "\<forall>rt\<in>set routes. \<exists>r. disable_vgw_route_propagation a rt (self_id m) = Inr r"
  shows "disable_loop a routes results m =
           (Inr (results @ map (\<lambda>rt. True)
                   (filter (\<lambda>rt. disable_vgw_route_propagation a rt (self_id m) = Inr True) routes)),
            m\<lparr>calls := calls m @ map (\<lambda>rt. DisableVgwRoutePropagation rt (self_id m)) routes\<rparr>)"
  using assms
proof (induction routes arbitrary: results m)
  case Nil
  show ?case by simp
next
  case (Cons route routes)
  obtain r where r: "disable_vgw_route_propagation a route (self_id m) = Inr r"
    using Cons.prems by auto
  let ?m1 = "m\<lparr>calls := calls m @ [DisableVgwRoutePropagation route (self_id m)]\<rparr>"
  have rest: "\<forall>rt\<in>set routes. \<exists>r. disable_vgw_route_propagation a rt (self_id ?m1) = Inr r"
    using Cons.prems by simp
  show ?case by (cases r) (simp_all add: r Cons.IH[OF rest])
qed

lemma route_calls_mutating:
  "filter mutating (map (\<lambda>rt. EnableVgwRoutePropagation rt i) xs) =
     map (\<lambda>rt. EnableVgwRoutePropagation rt i) xs"
  "filter mutating (map (\<lambda>rt. DisableVgwRoutePropagation rt i) xs) =
     map (\<lambda>rt. DisableVgwRoutePropagation rt i) xs"
  by (induction xs) simp_all

text \<open>With route tables given and a gateway found, \<^verbatim>\<open>main\<close> runs the route operation.\<close>

lemma vpn_gw_main_routes:
  assumes "truthy region" "VPNGatewayManager a args = (Inr (), m)" "vpn_gw m = Some g"
    "nonempty_list (route_table_ids args)"
  shows "vpn_gw_dispatch a present m = enable_route_propagation a m"
    and "vpn_gw_dispatch a absent m = disable_route_propagation a m"
    and "vpn_gw_main a region st args =
           finish (and_then (vpn_gw_dispatch a st) (\<lambda>u. vpn_gw_get_info a) m)"
proof -
  have rt: "route_table_ids m = route_table_ids args"
    using vpn_gw_init_result[OF assms(2)] by simp
  show "vpn_gw_dispatch a present m = enable_route_propagation a m"
    using assms rt by (simp add: vpn_gw_dispatch_def)
  show "vpn_gw_dispatch a absent m = disable_route_propagation a m"
    using assms rt by (simp add: vpn_gw_dispatch_def)
  show "vpn_gw_main a region st args =
           finish (and_then (vpn_gw_dispatch a st) (\<lambda>u. vpn_gw_get_info a) m)"
    using assms(1,2) by (simp add: vpn_gw_main_def and_then_def)
qed

lemma route_log_present:
  assumes "truthy region" "VPNGatewayManager a args = (Inr (), m)" "vpn_gw m = Some g"
    "route_table_ids args = Some routes" "routes \<noteq> []"
  shows "\<exists>k\<le>length routes. \<exists>tl.
           snd (vpn_gw_main a region present args) =
             calls m @ map (\<lambda>rt. EnableVgwRoutePropagation rt (self_id m)) (take k routes) @ tl \<and>
           (tl = [] \<or> tl = [GetAllVpnGateways (Ids [self_id m])])"
proof -
  have ne: "nonempty_list (route_table_ids args)" using assms by (simp add: nonempty_list_def)
  have rt: "route_table_ids m = Some routes"
    using vpn_gw_init_result[OF assms(2)] assms(4) by simp
  note main = vpn_gw_main_routes(1,3)[OF assms(1,2,3) ne]
  obtain r m' where el: "enable_loop a routes [] m = (r, m')" by (cases "enable_loop a routes [] m")
  obtain k where k: "k \<le> length routes"
    "m' = m\<lparr>calls := calls m @ map (\<lambda>rt. EnableVgwRoutePropagation rt (self_id m)) (take k routes)\<rparr>"
    using enable_loop_log[of routes a "[]" m] el by auto
  show ?thesis
  proof (cases r)
    case (Inl e)
    show ?thesis
      by (rule exI[of _ k], rule conjI[OF k(1)], rule exI[of _ "[]"])
         (simp add: main enable_route_propagation_def rt and_then_def el Inl finish_def k(2))
  next
    case (Inr results)
    show ?thesis
      by (rule exI[of _ k], rule conjI[OF k(1)],
          rule exI[of _ "[GetAllVpnGateways (Ids [self_id m])]"])
         (simp add: main enable_route_propagation_def rt and_then_def el Inr finish_def k(2)
            vpn_gw_get_info_def ret_def)
  qed
qed

lemma route_log_absent:
  assumes "truthy region" "VPNGatewayManager a args = (Inr (), m)" "vpn_gw m = Some g"
    "route_table_ids args = Some routes" "routes \<noteq> []"
  shows "\<exists>k\<le>length routes. \<exists>tl.
           snd (vpn_gw_main a region absent args) =
             calls m @ map (\<lambda>rt. DisableVgwRoutePropagation rt (self_id m)) (take k routes) @ tl \<and>
           (tl = [] \<or> tl = [GetAllVpnGateways (Ids [self_id m])])"
proof -
  have ne: "nonempty_list (route_table_ids args)" using assms by (simp add: nonempty_list_def)
  have rt: "route_table_ids m = Some routes"
    using vpn_gw_init_result[OF assms(2)] assms(4) by simp
  note main = vpn_gw_main_routes(2,3)[OF assms(1,2,3) ne]
  obtain r m' where el: "disable_loop a routes [] m = (r, m')"
    by (cases "disable_loop a routes [] m")
  obtain k where k: "k \<le> length routes"
    "m' = m\<lparr>calls := calls m @ map (\<lambda>rt. DisableVgwRoutePropagation rt (self_id m)) (take k routes)\<rparr>"
    using disable_loop_log[of routes a "[]" m] el by auto
  show ?thesis
  proof (cases r)
    case (Inl e)
    show ?thesis
      by (rule exI[of _ k], rule conjI[OF k(1)], rule exI[of _ "[]"])
         (simp add: main disable_route_propagation_def rt and_then_def el Inl finish_def k(2))
  next
    case (Inr results)
    show ?thesis
      by (rule exI[of _ k], rule conjI[OF k(1)],
          rule exI[of _ "[GetAllVpnGateways (Ids [self_id m])]"])
         (simp add: main disable_route_propagation_def rt and_then_def el Inr finish_def k(2)
            vpn_gw_get_info_def ret_def)
  qed
qed

lemma route_all_present:
  assumes "truthy region" "VPNGatewayManager a args = (Inr (), m)" "vpn_gw m = Some g"
    "route_table_ids args = Some routes" "routes \<noteq> []"
    "\<forall>rt\<in>set routes. \<exists>r. enable_vgw_route_propagation a rt (self_id m) = Inr r"
  shows "vpn_gw_main a region present args =
           (Inr \<lparr>r_changed = (\<exists>rt\<in>set routes. enable_vgw_route_propagation a rt (self_id m) = Inr True),
                 r_info = vpn_gw_report m (first_or_none (get_all_vpn_gateways a (Ids [self_id m])))\<rparr>,
            calls m @ map (\<lambda>rt. EnableVgwRoutePropagation rt (self_id m)) routes @
              [GetAllVpnGateways (Ids [self_id m])])"
proof -
  have ne: "nonempty_list (route_table_ids args)" using assms by (simp add: nonempty_list_def)
  have rt: "route_table_ids m = Some routes" and ch: "\<not> changed m"
    using vpn_gw_init_result[OF assms(2)] assms(4) by simp_all
  note main = vpn_gw_main_routes(1,3)[OF assms(1,2,3) ne]
  show ?thesis
    using ch
    by (auto simp: main enable_route_propagation_def rt and_then_def enable_loop_all[OF assms(6)]
          finish_def vpn_gw_get_info_def ret_def filter_empty_conv vpn_gw_report_def
          split: option.splits)
qed

lemma routes_found:
  "VPNGatewayManager stocked_aws vpn_gw_routes_args = (Inr (), vpn_gw_routes_found)"
  by (simp add: eval_defs example_defs)

text \<open>
  Claim C8. The VPN gateway module with \<^verbatim>\<open>state: present\<close>, a non-empty list of route table
  ids and a gateway found by the lookup runs \<^verbatim>\<open>_enable_route_propagation\<close> in place of
  \<^verbatim>\<open>ensure_ok\<close>: the mutating calls of the invocation are the enable calls for the listed
  route tables, in order, up to the first one that raises. When none raises there is one
  enable call per listed route table and the reported \<open>changed\<close> is true exactly when at
  least one of them returned a truthy result.
\<close>

theorem route_tables_enable_propagation:
  "truthy region \<and> VPNGatewayManager a args = (Inr (), m) \<and> vpn_gw m = Some g \<and>
   route_table_ids args = Some routes \<and> routes \<noteq> [] \<longrightarrow>
     vpn_gw_dispatch a present m = enable_route_propagation a m \<and>
     (\<exists>k\<le>length routes.
        filter mutating (snd (vpn_gw_main a region present args)) =
          map (\<lambda>rt. EnableVgwRoutePropagation rt (self_id m)) (take k routes)) \<and>
     ((\<forall>rt\<in>set routes. \<exists>r. enable_vgw_route_propagation a rt (self_id m) = Inr r) \<longrightarrow>
        filter mutating (snd (vpn_gw_main a region present args)) =
          map (\<lambda>rt. EnableVgwRoutePropagation rt (self_id m)) routes \<and>
        (\<exists>i. fst (vpn_gw_main a region present args) =
           Inr \<lparr>r_changed = (\<exists>rt\<in>set routes. enable_vgw_route_propagation a rt (self_id m) = Inr True),
                 r_info = i\<rparr>))"
proof (intro impI, elim conjE)
  assume h: "truthy region" "VPNGatewayManager a args = (Inr (), m)" "vpn_gw m = Some g"
    "route_table_ids args = Some routes" "routes \<noteq> []"
  have ne: "nonempty_list (route_table_ids args)" using h by (simp add: nonempty_list_def)
  have rd: "filter mutating (calls m) = []" using vpn_gw_init_result[OF h(2)] by simp
  have 1: "vpn_gw_dispatch a present m = enable_route_propagation a m"
    by (rule vpn_gw_main_routes(1)[OF h(1,2,3) ne])
  obtain k tl where k: "k \<le> length routes"
    "snd (vpn_gw_main a region present args) =
       calls m @ map (\<lambda>rt. EnableVgwRoutePropagation rt (self_id m)) (take k routes) @ tl"
    "tl = [] \<or> tl = [GetAllVpnGateways (Ids [self_id m])]"
    using route_log_present[OF h] by blast
  have 2: "\<exists>k\<le>length routes.
        filter mutating (snd (vpn_gw_main a region present args)) =
          map (\<lambda>rt. EnableVgwRoutePropagation rt (self_id m)) (take k routes)"
    using k(1,3) by (intro exI[of _ k]) (auto simp: k(2) rd route_calls_mutating)
  have 3: "filter mutating (snd (vpn_gw_main a region present args)) =
          map (\<lambda>rt. EnableVgwRoutePropagation rt (self_id m)) routes \<and>
        (\<exists>i. fst (vpn_gw_main a region present args) =
           Inr \<lparr>r_changed = (\<exists>rt\<in>set routes. enable_vgw_route_propagation a rt (self_id m) = Inr True),
                 r_info = i\<rparr>)"
    if all: "\<forall>rt\<in>set routes. \<exists>r. enable_vgw_route_propagation a rt (self_id m) = Inr r"
    by (simp add: route_all_present[OF h all] rd route_calls_mutating)
  show "vpn_gw_dispatch a present m = enable_route_propagation a m \<and>
     (\<exists>k\<le>length routes.
        filter mutating (snd (vpn_gw_main a region present args)) =
          map (\<lambda>rt. EnableVgwRoutePropagation rt (self_id m)) (take k routes)) \<and>
     ((\<forall>rt\<in>set routes. \<exists>r. enable_vgw_route_propagation a rt (self_id m) = Inr r) \<longrightarrow>
        filter mutating (snd (vpn_gw_main a region present args)) =
          map (\<lambda>rt. EnableVgwRoutePropagation rt (self_id m)) routes \<and>
        (\<exists>i. fst (vpn_gw_main a region present args) =
           Inr \<lparr>r_changed = (\<exists>rt\<in>set routes. enable_vgw_route_propagation a rt (self_id m) = Inr True),
                 r_info = i\<rparr>))"
    using 1 2 3 by blast
qed

theorem route_tables_enable_propagation_witness:
  "truthy (Some ''us-west-2'') \<and>
   VPNGatewayManager stocked_aws vpn_gw_routes_args = (Inr (), vpn_gw_routes_found) \<and>
   vpn_gw vpn_gw_routes_found = Some example_vpn_gw \<and>
   route_table_ids vpn_gw_routes_args = Some [''rtb-1'', ''rtb-2''] \<and>
   enable_vgw_route_propagation stocked_aws ''rtb-1'' (self_id vpn_gw_routes_found) = Inr True \<and>
   enable_vgw_route_propagation stocked_aws ''rtb-2'' (self_id vpn_gw_routes_found) = Inr True \<and>
   filter mutating (snd (vpn_gw_main stocked_aws (Some ''us-west-2'') present vpn_gw_routes_args)) =
     [EnableVgwRoutePropagation ''rtb-1'' (Some ''vgw-e961bef7''),
      EnableVgwRoutePropagation ''rtb-2'' (Some ''vgw-e961bef7'')] \<and>
   (\<exists>i. fst (vpn_gw_main stocked_aws (Some ''us-west-2'') present vpn_gw_routes_args) =
      Inr \<lparr>r_changed = True, r_info = i\<rparr>)"
proof -
  have h: "truthy (Some ''us-west-2'')" "vpn_gw vpn_gw_routes_found = Some example_vpn_gw"
    "route_table_ids vpn_gw_routes_args = Some [''rtb-1'', ''rtb-2'']"
    "[''rtb-1'', ''rtb-2''] \<noteq> []"
    by (simp_all add: example_defs truthy_def)
  have i: "self_id vpn_gw_routes_found = Some ''vgw-e961bef7''"
    by (simp add: example_defs)
  have e: "\<And>rt i. enable_vgw_route_propagation stocked_aws rt i = Inr True"
    by (simp add: example_defs)
  have all: "\<forall>rt\<in>set [''rtb-1'', ''rtb-2''].
      \<exists>r. enable_vgw_route_propagation stocked_aws rt (self_id vpn_gw_routes_found) = Inr r"
    using e by blast
  have some: "\<exists>rt\<in>set [''rtb-1'', ''rtb-2''].
      enable_vgw_route_propagation stocked_aws rt (self_id vpn_gw_routes_found) = Inr True"
    using e by auto
  from route_tables_enable_propagation[where a = stocked_aws and region = "Some ''us-west-2''"
      and args = vpn_gw_routes_args and m = vpn_gw_routes_found and g = example_vpn_gw
      and routes = "[''rtb-1'', ''rtb-2'']"] routes_found h all
  have c: "filter mutating (snd (vpn_gw_main stocked_aws (Some ''us-west-2'') present vpn_gw_routes_args)) =
          map (\<lambda>rt. EnableVgwRoutePropagation rt (self_id vpn_gw_routes_found)) [''rtb-1'', ''rtb-2'']"
    "\<exists>i. fst (vpn_gw_main stocked_aws (Some ''us-west-2'') present vpn_gw_routes_args) =
       Inr \<lparr>r_changed = (\<exists>rt\<in>set [''rtb-1'', ''rtb-2''].
               enable_vgw_route_propagation stocked_aws rt (self_id vpn_gw_routes_found) = Inr True),
             r_info = i\<rparr>"
    by blast+
  from c(2) some have c2: "\<exists>i. fst (vpn_gw_main stocked_aws (Some ''us-west-2'') present vpn_gw_routes_args) =
      Inr \<lparr>r_changed = True, r_info = i\<rparr>"
    by auto
  from c(1) have c1: "filter mutating (snd (vpn_gw_main stocked_aws (Some ''us-west-2'') present vpn_gw_routes_args)) =
     [EnableVgwRoutePropagation ''rtb-1'' (Some ''vgw-e961bef7''),
      EnableVgwRoutePropagation ''rtb-2'' (Some ''vgw-e961bef7'')]"
    by (simp add: i)
  from routes_found h e c1 c2 show ?thesis by (intro conjI)
qed

text \<open>
  Claim C10. In the route-propagation paths of the VPN gateway module (route table ids
  given, a gateway found) every mutating call of the invocation is an enable call with
  \<^verbatim>\<open>state: present\<close> and a disable call with \<^verbatim>\<open>state: absent\<close>, each for a listed route
  table and the gateway found; after the constructor the only other call is the fetch of
  \<^verbatim>\<open>get_info\<close>. So no tag is fetched or created, and no attach, detach, delete or create
  call is issued.
\<close>

theorem route_paths_touch_nothing_else:
  "truthy region \<and> VPNGatewayManager a args = (Inr (), m) \<and> vpn_gw m = Some g \<and>
   route_table_ids args = Some routes \<and> routes \<noteq> [] \<longrightarrow>
     (\<forall>c\<in>set (snd (vpn_gw_main a region present args)).
        mutating c \<longrightarrow> (\<exists>rt\<in>set routes. c = EnableVgwRoutePropagation rt (self_id m))) \<and>
     (\<forall>c\<in>set (snd (vpn_gw_main a region absent args)).
        mutating c \<longrightarrow> (\<exists>rt\<in>set routes. c = DisableVgwRoutePropagation rt (self_id m))) \<and>
     (\<forall>c\<in>set (drop (length (calls m)) (snd (vpn_gw_main a region present args))).
        (\<exists>rt\<in>set routes. c = EnableVgwRoutePropagation rt (self_id m)) \<or>
        c = GetAllVpnGateways (Ids [self_id m])) \<and>
     (\<forall>c\<in>set (drop (length (calls m)) (snd (vpn_gw_main a region absent args))).
        (\<exists>rt\<in>set routes. c = DisableVgwRoutePropagation rt (self_id m)) \<or>
        c = GetAllVpnGateways (Ids [self_id m]))"
proof (intro impI, elim conjE)
  assume h: "truthy region" "VPNGatewayManager a args = (Inr (), m)" "vpn_gw m = Some g"
    "route_table_ids args = Some routes" "routes \<noteq> []"
  have rd: "\<forall>c\<in>set (calls m). \<not> mutating c"
    using vpn_gw_init_result[OF h(2)] by (simp add: filter_empty_conv)
  obtain k tl where k: "k \<le> length routes"
    "snd (vpn_gw_main a region present args) =
       calls m @ map (\<lambda>rt. EnableVgwRoutePropagation rt (self_id m)) (take k routes) @ tl"
    "tl = [] \<or> tl = [GetAllVpnGateways (Ids [self_id m])]"
    using route_log_present[OF h] by blast
  obtain j tl' where j: "j \<le> length routes"
    "snd (vpn_gw_main a region absent args) =
       calls m @ map (\<lambda>rt. DisableVgwRoutePropagation rt (self_id m)) (take j routes) @ tl'"
    "tl' = [] \<or> tl' = [GetAllVpnGateways (Ids [self_id m])]"
    using route_log_absent[OF h] by blast
  have sub: "\<And>n x. x \<in> set (take n routes) \<Longrightarrow> x \<in> set routes" by (rule in_set_takeD)
  show "(\<forall>c\<in>set (snd (vpn_gw_main a region present args)).
        mutating c \<longrightarrow> (\<exists>rt\<in>set routes. c = EnableVgwRoutePropagation rt (self_id m))) \<and>
     (\<forall>c\<in>set (snd (vpn_gw_main a region absent args)).
        mutating c \<longrightarrow> (\<exists>rt\<in>set routes. c = DisableVgwRoutePropagation rt (self_id m))) \<and>
     (\<forall>c\<in>set (drop (length (calls m)) (snd (vpn_gw_main a region present args))).
        (\<exists>rt\<in>set routes. c = EnableVgwRoutePropagation rt (self_id m)) \<or>
        c = GetAllVpnGateways (Ids [self_id m])) \<and>
     (\<forall>c\<in>set (drop (length (calls m)) (snd (vpn_gw_main a region absent args))).
        (\<exists>rt\<in>set routes. c = DisableVgwRoutePropagation rt (self_id m)) \<or>
        c = GetAllVpnGateways (Ids [self_id m]))"
    using rd k(3) j(3) sub by (auto simp: k(2) j(2))
qed

theorem route_paths_touch_nothing_else_witness:
  "truthy (Some ''us-west-2'') \<and>
   VPNGatewayManager stocked_aws vpn_gw_routes_args = (Inr (), vpn_gw_routes_found) \<and>
   vpn_gw vpn_gw_routes_found = Some example_vpn_gw \<and>
   route_table_ids vpn_gw_routes_args = Some [''rtb-1'', ''rtb-2''] \<and>
   snd (vpn_gw_main stocked_aws (Some ''us-west-2'') absent vpn_gw_routes_args) =
     [GetAllVpnGateways NoArgs,
      DisableVgwRoutePropagation ''rtb-1'' (Some ''vgw-e961bef7''),
      DisableVgwRoutePropagation ''rtb-2'' (Some ''vgw-e961bef7''),
      GetAllVpnGateways (Ids [Some ''vgw-e961bef7''])] \<and>
   set (drop (length (calls vpn_gw_routes_found))
          (snd (vpn_gw_main stocked_aws (Some ''us-west-2'') present vpn_gw_routes_args)))
     \<subseteq> (\<lambda>rt. EnableVgwRoutePropagation rt (self_id vpn_gw_routes_found)) ` set [''rtb-1'', ''rtb-2'']
        \<union> {GetAllVpnGateways (Ids [self_id vpn_gw_routes_found])} \<and>
   set (drop (length (calls vpn_gw_routes_found))
          (snd (vpn_gw_main stocked_aws (Some ''us-west-2'') absent vpn_gw_routes_args)))
     \<subseteq> (\<lambda>rt. DisableVgwRoutePropagation rt (self_id vpn_gw_routes_found)) ` set [''rtb-1'', ''rtb-2'']
        \<union> {GetAllVpnGateways (Ids [self_id vpn_gw_routes_found])}"
proof -
  have h: "truthy (Some ''us-west-2'')" "vpn_gw vpn_gw_routes_found = Some example_vpn_gw"
    "route_table_ids vpn_gw_routes_args = Some [''rtb-1'', ''rtb-2'']"
    "[''rtb-1'', ''rtb-2''] \<noteq> []"
    by (simp_all add: example_defs truthy_def)
  have l: "snd (vpn_gw_main stocked_aws (Some ''us-west-2'') absent vpn_gw_routes_args) =
     [GetAllVpnGateways NoArgs,
      DisableVgwRoutePropagation ''rtb-1'' (Some ''vgw-e961bef7''),
      DisableVgwRoutePropagation ''rtb-2'' (Some ''vgw-e961bef7''),
      GetAllVpnGateways (Ids [Some ''vgw-e961bef7''])]"
    by (simp add: eval_defs example_defs)
  note th = route_paths_touch_nothing_else[where a = stocked_aws and region = "Some ''us-west-2''"
      and args = vpn_gw_routes_args and m = vpn_gw_routes_found and g = example_vpn_gw
      and routes = "[''rtb-1'', ''rtb-2'']"]
  from th routes_found h have p:
    "set (drop (length (calls vpn_gw_routes_found))
          (snd (vpn_gw_main stocked_aws (Some ''us-west-2'') present vpn_gw_routes_args)))
     \<subseteq> (\<lambda>rt. EnableVgwRoutePropagation rt (self_id vpn_gw_routes_found)) ` set [''rtb-1'', ''rtb-2'']
        \<union> {GetAllVpnGateways (Ids [self_id vpn_gw_routes_found])}"
    by blast
  from th routes_found h have q:
    "set (drop (length (calls vpn_gw_routes_found))
          (snd (vpn_gw_main stocked_aws (Some ''us-west-2'') absent vpn_gw_routes_args)))
     \<subseteq> (\<lambda>rt. DisableVgwRoutePropagation rt (self_id vpn_gw_routes_found)) ` set [''rtb-1'', ''rtb-2'']
        \<union> {GetAllVpnGateways (Ids [self_id vpn_gw_routes_found])}"
    by blast
  from routes_found h(1-3) l p q show ?thesis by (intro conjI)
qed

end
